theory Spec2Isabelle
  imports Complex_Main "HOL-Library.Multiset"
begin

section \<open>Constants (common/constants/constants.go)\<close>

definition DataTypeTicker :: string where "DataTypeTicker = ''ticker''"
definition DataTypeDepth :: string where "DataTypeDepth = ''depth''"
definition DataTypeTrade :: string where "DataTypeTrade = ''trade''"
definition DataTypeKline :: string where "DataTypeKline = ''kline''"

definition RedisKeyTicker :: string where "RedisKeyTicker = ''ticker:''"
definition RedisKeyDepth :: string where "RedisKeyDepth = ''depth:''"
definition RedisKeyKline :: string where "RedisKeyKline = ''kline:''"
definition RedisKeyTrade :: string where "RedisKeyTrade = ''trade:''"
definition RedisChannelMarket :: string where "RedisChannelMarket = ''market:''"

definition SourceInternal :: string where "SourceInternal = ''internal''"
definition SourceExternal :: string where "SourceExternal = ''external''"
definition SourceMerged :: string where "SourceMerged = ''merged''"

definition ModeInternalOnly :: string where "ModeInternalOnly = ''INTERNAL_ONLY''"
definition ModeExternalOnly :: string where "ModeExternalOnly = ''EXTERNAL_ONLY''"
definition ModeHybrid :: string where "ModeHybrid = ''HYBRID''"

definition MergeStrategyPriority :: string where "MergeStrategyPriority = ''priority''"
definition MergeStrategySupplement :: string where "MergeStrategySupplement = ''supplement''"

text \<open>Milliseconds: \<open>Second = 1000\<close>, \<open>DataFreshnessThreshold = 5 * Second\<close>.\<close>

definition Second :: int where "Second = 1000"
definition DataFreshnessThreshold :: int where "DataFreshnessThreshold = 5 * Second"

definition MaxSubscriptionsPerConn :: nat where "MaxSubscriptionsPerConn = 20"

section \<open>Data model (common/models)\<close>

text \<open>
  The Go structs become records; every field name carries a short prefix of its struct,
  since several structs share field names. A \<open>float64\<close> is read as a real number:
  rounding, infinities and NaN are outside this model. A pointer that may be \<open>nil\<close>
  is an \<open>option\<close>. The \<open>interface{}\<close> payload of \<open>MarketData\<close> is a tagged union of
  the structs that are put into it.
\<close>

record Ticker =
  tk_Symbol :: string
  tk_LastPrice :: real
  tk_BidPrice :: real
  tk_AskPrice :: real
  tk_High24h :: real
  tk_Low24h :: real
  tk_Volume24h :: real
  tk_Timestamp :: int

record Trade =
  tr_Symbol :: string
  tr_TradeID :: string
  tr_Price :: real
  tr_Amount :: real
  tr_Side :: string
  tr_Timestamp :: int

record Kline =
  kl_Symbol :: string
  kl_Interval :: string
  kl_OpenTime :: int
  kl_CloseTime :: int
  kl_Open :: real
  kl_High :: real
  kl_Low :: real
  kl_Close :: real
  kl_Volume :: real
  kl_QuoteVol :: real
  kl_TradeNum :: int

record PriceLevel =
  pl_Price :: real
  pl_Amount :: real

record OrderBook =
  ob_Symbol :: string
  ob_Bids :: "PriceLevel list"
  ob_Asks :: "PriceLevel list"
  ob_Timestamp :: int

record SymbolConfig =
  sc_Symbol :: string
  sc_Mode :: string
  sc_PrimarySource :: string
  sc_ExternalSource :: string
  sc_MergeStrategy :: string
  sc_Enable :: bool
  sc_Description :: string

record PriceLevelWithSource =
  pls_Price :: real
  pls_Amount :: real
  pls_Source :: string

record OrderBookWithSource =
  obs_Symbol :: string
  obs_Bids :: "PriceLevelWithSource list"
  obs_Asks :: "PriceLevelWithSource list"
  obs_InternalBidsCount :: int
  obs_ExternalBidsCount :: int
  obs_InternalAsksCount :: int
  obs_ExternalAsksCount :: int
  obs_Timestamp :: int

record TickerWithSource =
  tws_Symbol :: string
  tws_LastPrice :: real
  tws_LastPriceSource :: string
  tws_BidPrice :: real
  tws_AskPrice :: real
  tws_High24h :: real
  tws_Low24h :: real
  tws_InternalVolume24h :: real
  tws_ExternalVolume24h :: real
  tws_TotalVolume24h :: real
  tws_Timestamp :: int

datatype payload =
    TickerData Ticker
  | DepthData OrderBook
  | TradeData Trade
  | KlineData Kline
  | MergedTickerData TickerWithSource
  | MergedDepthData OrderBookWithSource
  | OtherData

record MarketData =
  md_Exchange :: string
  md_Symbol :: string
  md_Type :: string
  md_Source :: string
  md_Timestamp :: int
  md_Data :: payload

section \<open>sort.Slice\<close>

text \<open>
  \<open>sort.Slice(s, less)\<close> of the Go library reorders \<open>s\<close> so that it is sorted with
  respect to \<open>less\<close>; it does not promise to keep equal elements in their order. The
  model is insertion sort with the same comparison; the theorems below use only that the
  result is a sorted rearrangement.
\<close>

fun insert_by :: "('a \<Rightarrow> 'a \<Rightarrow> bool) \<Rightarrow> 'a \<Rightarrow> 'a list \<Rightarrow> 'a list" where
  "insert_by lt x [] = [x]"
| "insert_by lt x (y # ys) =
     (if lt y x then y # insert_by lt x ys else x # y # ys)"

definition sort_Slice :: "('a \<Rightarrow> 'a \<Rightarrow> bool) \<Rightarrow> 'a list \<Rightarrow> 'a list" where
  "sort_Slice lt xs = foldr (insert_by lt) xs []"

section \<open>Fusion engine (services/collector/internal/merger/merger.go)\<close>

record CachedData =
  cd_Ticker :: "Ticker option"
  cd_Depth :: "OrderBook option"
  cd_Trades :: "Trade list"
  cd_Timestamp :: int

record DataMerger =
  symbolConfigs :: "string \<rightharpoonup> SymbolConfig"
  internalData :: "string \<rightharpoonup> CachedData"
  externalData :: "string \<rightharpoonup> CachedData"

text \<open>
  Every call of \<open>time.Now().UnixMilli()\<close> made while one record is processed gets its
  own reading, named after the place of the call: in \<open>cacheData\<close>, in the freshness check
  of the internal side, in the freshness check of the external side (the supplement depth
  merge checks the external side a second time for the asks), in the \<open>Timestamp\<close> of a
  merged book, and in the \<open>Timestamp\<close> of the outgoing record.
\<close>

record readings =
  at_cache :: int
  at_internal :: int
  at_external :: int
  at_external_asks :: int
  at_book :: int
  at_emit :: int

text \<open>\<open>&CachedData{}\<close>: the zero value.\<close>

definition emptyCachedData :: CachedData where
  "emptyCachedData = \<lparr>cd_Ticker = None, cd_Depth = None, cd_Trades = [], cd_Timestamp = 0\<rparr>"

definition isDataFresh :: "int \<Rightarrow> int \<Rightarrow> bool" where
  "isDataFresh now timestamp \<longleftrightarrow> now - timestamp < DataFreshnessThreshold"

definition cacheData :: "int \<Rightarrow> MarketData \<Rightarrow> DataMerger \<Rightarrow> DataMerger" where
  "cacheData now d m =
     (let symbol = md_Symbol d;
          isInternal = (md_Source d = SourceInternal);
          cache = (case (if isInternal then internalData m else externalData m) symbol of
                     None \<Rightarrow> emptyCachedData
                   | Some c \<Rightarrow> c);
          cache1 =
            (if md_Type d = DataTypeTicker then
               (case md_Data d of TickerData t \<Rightarrow> cache\<lparr>cd_Ticker := Some t\<rparr> | _ \<Rightarrow> cache)
             else if md_Type d = DataTypeDepth then
               (case md_Data d of DepthData b \<Rightarrow> cache\<lparr>cd_Depth := Some b\<rparr> | _ \<Rightarrow> cache)
             else if md_Type d = DataTypeTrade then
               (case md_Data d of
                  TradeData t \<Rightarrow>
                    (let ts = t # cd_Trades cache
                     in cache\<lparr>cd_Trades := (if length ts > 100 then take 100 ts else ts)\<rparr>)
                | _ \<Rightarrow> cache)
             else cache);
          cache2 = cache1\<lparr>cd_Timestamp := now\<rparr>
      in if isInternal then m\<lparr>internalData := (internalData m)(symbol \<mapsto> cache2)\<rparr>
         else m\<lparr>externalData := (externalData m)(symbol \<mapsto> cache2)\<rparr>)"

text \<open>\<open>c != nil && c.Ticker != nil\<close>, giving the ticker.\<close>

fun cachedTicker :: "CachedData option \<Rightarrow> Ticker option" where
  "cachedTicker None = None"
| "cachedTicker (Some c) = cd_Ticker c"

text \<open>\<open>c != nil && c.Ticker != nil && m.isDataFresh(c.Timestamp)\<close>, giving the ticker.\<close>

fun freshTicker :: "int \<Rightarrow> CachedData option \<Rightarrow> Ticker option" where
  "freshTicker now None = None"
| "freshTicker now (Some c) =
     (case cd_Ticker c of
        None \<Rightarrow> None
      | Some t \<Rightarrow> if isDataFresh now (cd_Timestamp c) then Some t else None)"

text \<open>\<open>&models.TickerWithSource{Symbol: symbol}\<close>.\<close>

definition newTickerWithSource :: "string \<Rightarrow> TickerWithSource" where
  "newTickerWithSource symbol =
     \<lparr>tws_Symbol = symbol, tws_LastPrice = 0, tws_LastPriceSource = [],
      tws_BidPrice = 0, tws_AskPrice = 0, tws_High24h = 0, tws_Low24h = 0,
      tws_InternalVolume24h = 0, tws_ExternalVolume24h = 0, tws_TotalVolume24h = 0,
      tws_Timestamp = 0\<rparr>"

definition mergeTickerPriority ::
  "readings \<Rightarrow> CachedData option \<Rightarrow> CachedData option \<Rightarrow> string \<Rightarrow> TickerWithSource option" where
  "mergeTickerPriority rd internal external symbol =
     (let ticker = newTickerWithSource symbol;
          chosen =
            (case freshTicker (at_internal rd) internal of
               Some it \<Rightarrow>
                 Some (ticker\<lparr>tws_LastPrice := tk_LastPrice it,
                              tws_LastPriceSource := SourceInternal,
                              tws_BidPrice := tk_BidPrice it,
                              tws_AskPrice := tk_AskPrice it,
                              tws_High24h := tk_High24h it,
                              tws_Low24h := tk_Low24h it,
                              tws_InternalVolume24h := tk_Volume24h it,
                              tws_Timestamp := tk_Timestamp it\<rparr>)
             | None \<Rightarrow>
                 (case freshTicker (at_external rd) external of
                    Some et \<Rightarrow>
                      Some (ticker\<lparr>tws_LastPrice := tk_LastPrice et,
                                   tws_LastPriceSource := SourceExternal,
                                   tws_BidPrice := tk_BidPrice et,
                                   tws_AskPrice := tk_AskPrice et,
                                   tws_High24h := tk_High24h et,
                                   tws_Low24h := tk_Low24h et,
                                   tws_ExternalVolume24h := tk_Volume24h et,
                                   tws_Timestamp := tk_Timestamp et\<rparr>)
                  | None \<Rightarrow> None))
      in case chosen of
           None \<Rightarrow> None
         | Some ticker1 \<Rightarrow>
             (let ticker2 = (case cachedTicker internal of
                               Some it \<Rightarrow> ticker1\<lparr>tws_InternalVolume24h := tk_Volume24h it\<rparr>
                             | None \<Rightarrow> ticker1);
                  ticker3 = (case cachedTicker external of
                               Some et \<Rightarrow> ticker2\<lparr>tws_ExternalVolume24h := tk_Volume24h et\<rparr>
                             | None \<Rightarrow> ticker2)
              in Some (ticker3\<lparr>tws_TotalVolume24h :=
                         tws_InternalVolume24h ticker3 + tws_ExternalVolume24h ticker3\<rparr>)))"

definition mergeTickerSupplement ::
  "readings \<Rightarrow> CachedData option \<Rightarrow> CachedData option \<Rightarrow> string \<Rightarrow> TickerWithSource option" where
  "mergeTickerSupplement rd internal external symbol =
     mergeTickerPriority rd internal external symbol"

definition mergeTicker :: "readings \<Rightarrow> string \<Rightarrow> SymbolConfig \<Rightarrow> DataMerger \<Rightarrow> MarketData option" where
  "mergeTicker rd symbol config m =
     (let internalCache = internalData m symbol;
          externalCache = externalData m symbol;
          mergedTicker =
            (if sc_MergeStrategy config = MergeStrategyPriority then
               mergeTickerPriority rd internalCache externalCache symbol
             else if sc_MergeStrategy config = MergeStrategySupplement then
               mergeTickerSupplement rd internalCache externalCache symbol
             else mergeTickerPriority rd internalCache externalCache symbol)
      in case mergedTicker of
           None \<Rightarrow> None
         | Some t \<Rightarrow>
             Some \<lparr>md_Exchange = ''merged'', md_Symbol = symbol, md_Type = DataTypeTicker,
                   md_Source = SourceMerged, md_Timestamp = at_emit rd,
                   md_Data = MergedTickerData t\<rparr>)"

text \<open>\<open>c != nil && c.Depth != nil && m.isDataFresh(c.Timestamp)\<close>, giving the book.\<close>

fun freshDepth :: "int \<Rightarrow> CachedData option \<Rightarrow> OrderBook option" where
  "freshDepth now None = None"
| "freshDepth now (Some c) =
     (case cd_Depth c of
        None \<Rightarrow> None
      | Some b \<Rightarrow> if isDataFresh now (cd_Timestamp c) then Some b else None)"

definition newOrderBookWithSource :: "string \<Rightarrow> OrderBookWithSource" where
  "newOrderBookWithSource symbol =
     \<lparr>obs_Symbol = symbol, obs_Bids = [], obs_Asks = [],
      obs_InternalBidsCount = 0, obs_ExternalBidsCount = 0,
      obs_InternalAsksCount = 0, obs_ExternalAsksCount = 0, obs_Timestamp = 0\<rparr>"

text \<open>One round of the \<open>append\<close> loops: a level tagged with its source.\<close>

definition withSource :: "string \<Rightarrow> PriceLevel \<Rightarrow> PriceLevelWithSource" where
  "withSource src l = \<lparr>pls_Price = pl_Price l, pls_Amount = pl_Amount l, pls_Source = src\<rparr>"

text \<open>
  The block "add the internal depth" is the same in both depth merges: when the internal
  side has a book and is fresh, its levels are appended, tagged internal, and counted.
\<close>

definition addInternalDepth :: "int \<Rightarrow> CachedData option \<Rightarrow> OrderBookWithSource \<Rightarrow> OrderBookWithSource" where
  "addInternalDepth now internal depth =
     (case freshDepth now internal of
        None \<Rightarrow> depth
      | Some b \<Rightarrow>
          depth\<lparr>obs_Bids := obs_Bids depth @ map (withSource SourceInternal) (ob_Bids b),
                obs_Asks := obs_Asks depth @ map (withSource SourceInternal) (ob_Asks b),
                obs_InternalBidsCount := int (length (ob_Bids b)),
                obs_InternalAsksCount := int (length (ob_Asks b))\<rparr>)"

text \<open>The two \<open>sort.Slice\<close> calls that both depth merges make: bids down, asks up.\<close>

definition sortBook :: "OrderBookWithSource \<Rightarrow> OrderBookWithSource" where
  "sortBook depth =
     depth\<lparr>obs_Bids := sort_Slice (\<lambda>a b. pls_Price a > pls_Price b) (obs_Bids depth),
           obs_Asks := sort_Slice (\<lambda>a b. pls_Price a < pls_Price b) (obs_Asks depth)\<rparr>"

definition mergeDepthPriority ::
  "readings \<Rightarrow> CachedData option \<Rightarrow> CachedData option \<Rightarrow> string \<Rightarrow> OrderBookWithSource option" where
  "mergeDepthPriority rd internal external symbol =
     (let depth = newOrderBookWithSource symbol;
          depth1 = addInternalDepth (at_internal rd) internal depth;
          depth2 =
            (case freshDepth (at_external rd) external of
               None \<Rightarrow> depth1
             | Some b \<Rightarrow>
                 depth1\<lparr>obs_Bids := obs_Bids depth1 @ map (withSource SourceExternal) (ob_Bids b),
                        obs_Asks := obs_Asks depth1 @ map (withSource SourceExternal) (ob_Asks b),
                        obs_ExternalBidsCount := int (length (ob_Bids b)),
                        obs_ExternalAsksCount := int (length (ob_Asks b))\<rparr>);
          depth3 = sortBook depth2;
          depth4 = (if length (obs_Bids depth3) > 100
                    then depth3\<lparr>obs_Bids := take 100 (obs_Bids depth3)\<rparr> else depth3);
          depth5 = (if length (obs_Asks depth4) > 100
                    then depth4\<lparr>obs_Asks := take 100 (obs_Asks depth4)\<rparr> else depth4)
      in Some (depth5\<lparr>obs_Timestamp := at_book rd\<rparr>))"

definition mergeDepthSupplement ::
  "readings \<Rightarrow> CachedData option \<Rightarrow> CachedData option \<Rightarrow> string \<Rightarrow> OrderBookWithSource option" where
  "mergeDepthSupplement rd internal external symbol =
     (let depth = newOrderBookWithSource symbol;
          depth1 = addInternalDepth (at_internal rd) internal depth;
          depth2 =
            (if length (obs_Bids depth1) < 20 then
               (case freshDepth (at_external rd) external of
                  None \<Rightarrow> depth1
                | Some b \<Rightarrow>
                    depth1\<lparr>obs_Bids := obs_Bids depth1 @ map (withSource SourceExternal) (ob_Bids b),
                           obs_ExternalBidsCount := int (length (ob_Bids b))\<rparr>)
             else depth1);
          depth3 =
            (if length (obs_Asks depth2) < 20 then
               (case freshDepth (at_external_asks rd) external of
                  None \<Rightarrow> depth2
                | Some b \<Rightarrow>
                    depth2\<lparr>obs_Asks := obs_Asks depth2 @ map (withSource SourceExternal) (ob_Asks b),
                           obs_ExternalAsksCount := int (length (ob_Asks b))\<rparr>)
             else depth2);
          depth4 = sortBook depth3
      in Some (depth4\<lparr>obs_Timestamp := at_book rd\<rparr>))"

definition mergeDepth :: "readings \<Rightarrow> string \<Rightarrow> SymbolConfig \<Rightarrow> DataMerger \<Rightarrow> MarketData option" where
  "mergeDepth rd symbol config m =
     (let internalCache = internalData m symbol;
          externalCache = externalData m symbol;
          mergedDepth =
            (if sc_MergeStrategy config = MergeStrategyPriority then
               mergeDepthPriority rd internalCache externalCache symbol
             else if sc_MergeStrategy config = MergeStrategySupplement then
               mergeDepthSupplement rd internalCache externalCache symbol
             else mergeDepthPriority rd internalCache externalCache symbol)
      in case mergedDepth of
           None \<Rightarrow> None
         | Some b \<Rightarrow>
             Some \<lparr>md_Exchange = ''merged'', md_Symbol = symbol, md_Type = DataTypeDepth,
                   md_Source = SourceMerged, md_Timestamp = at_emit rd,
                   md_Data = MergedDepthData b\<rparr>)"

text \<open>
  \<open>mergeData\<close> and \<open>ProcessData\<close> return the outgoing record (\<open>None\<close> for \<open>nil\<close>: nothing
  is emitted) and the engine with its caches updated.
\<close>

definition mergeData ::
  "readings \<Rightarrow> MarketData \<Rightarrow> SymbolConfig \<Rightarrow> DataMerger \<Rightarrow> MarketData option \<times> DataMerger" where
  "mergeData rd d config m =
     (let m1 = cacheData (at_cache rd) d m
      in if md_Type d = DataTypeTicker then (mergeTicker rd (md_Symbol d) config m1, m1)
         else if md_Type d = DataTypeDepth then (mergeDepth rd (md_Symbol d) config m1, m1)
         else if md_Type d = DataTypeTrade then (Some d, m1)
         else (Some d, m1))"

definition ProcessData ::
  "readings \<Rightarrow> MarketData \<Rightarrow> DataMerger \<Rightarrow> MarketData option \<times> DataMerger" where
  "ProcessData rd d m =
     (case symbolConfigs m (md_Symbol d) of
        None \<Rightarrow> (Some d, m)
      | Some config \<Rightarrow>
          if sc_Mode config = ModeInternalOnly then
            (if md_Source d = SourceInternal then (Some d, m) else (None, m))
          else if sc_Mode config = ModeExternalOnly then
            (if md_Source d = SourceExternal then (Some d, m) else (None, m))
          else if sc_Mode config = ModeHybrid then mergeData rd d config m
          else (Some d, m))"

subsection \<open>Notions used to state the properties of the fusion engine\<close>

text \<open>\<open>c != nil && c.Depth != nil\<close>, giving the book.\<close>

fun cachedDepth :: "CachedData option \<Rightarrow> OrderBook option" where
  "cachedDepth None = None"
| "cachedDepth (Some c) = cd_Depth c"

text \<open>A cached side is fresh at a clock reading: it exists and its one timestamp is recent.\<close>

fun sideFresh :: "int \<Rightarrow> CachedData option \<Rightarrow> bool" where
  "sideFresh now None = False"
| "sideFresh now (Some c) = isDataFresh now (cd_Timestamp c)"

text \<open>The 24h volume a side's cache holds: that of its ticker, and zero without one.\<close>

fun cachedVolume24h :: "CachedData option \<Rightarrow> real" where
  "cachedVolume24h c = (case cachedTicker c of None \<Rightarrow> 0 | Some t \<Rightarrow> tk_Volume24h t)"

text \<open>The cache of the side a record of the given source belongs to.\<close>

definition sideData :: "DataMerger \<Rightarrow> string \<Rightarrow> (string \<rightharpoonup> CachedData)" where
  "sideData m src = (if src = SourceInternal then internalData m else externalData m)"

text \<open>
  The merged ticker drawn from one ticker: price fields and timestamp of that ticker, the
  given source tag and the given two volumes, and their sum as total.
\<close>

definition mergedFrom :: "string \<Rightarrow> string \<Rightarrow> Ticker \<Rightarrow> real \<Rightarrow> real \<Rightarrow> TickerWithSource" where
  "mergedFrom symbol src tk ivol evol =
     \<lparr>tws_Symbol = symbol, tws_LastPrice = tk_LastPrice tk, tws_LastPriceSource = src,
      tws_BidPrice = tk_BidPrice tk, tws_AskPrice = tk_AskPrice tk,
      tws_High24h = tk_High24h tk, tws_Low24h = tk_Low24h tk,
      tws_InternalVolume24h = ivol, tws_ExternalVolume24h = evol,
      tws_TotalVolume24h = ivol + evol, tws_Timestamp = tk_Timestamp tk\<rparr>"

text \<open>The outgoing record that carries a merged payload.\<close>

definition mergedRecord :: "readings \<Rightarrow> string \<Rightarrow> string \<Rightarrow> payload \<Rightarrow> MarketData" where
  "mergedRecord rd symbol kind p =
     \<lparr>md_Exchange = ''merged'', md_Symbol = symbol, md_Type = kind,
      md_Source = SourceMerged, md_Timestamp = at_emit rd, md_Data = p\<rparr>"

text \<open>A hybrid engine for one symbol, and records to feed it.\<close>

definition hybridConfig :: "string \<Rightarrow> SymbolConfig" where
  "hybridConfig strategy =
     \<lparr>sc_Symbol = ''BTCUSDT'', sc_Mode = ModeHybrid, sc_PrimarySource = SourceInternal,
      sc_ExternalSource = ''binance'', sc_MergeStrategy = strategy, sc_Enable = True,
      sc_Description = []\<rparr>"

definition hybridMerger :: "string \<Rightarrow> DataMerger" where
  "hybridMerger strategy =
     \<lparr>symbolConfigs = [''BTCUSDT'' \<mapsto> hybridConfig strategy],
      internalData = Map.empty, externalData = Map.empty\<rparr>"

definition tickerOf :: "real \<Rightarrow> real \<Rightarrow> int \<Rightarrow> Ticker" where
  "tickerOf price vol ts =
     \<lparr>tk_Symbol = ''BTCUSDT'', tk_LastPrice = price, tk_BidPrice = price - 1,
      tk_AskPrice = price + 1, tk_High24h = price + 100, tk_Low24h = price - 100,
      tk_Volume24h = vol, tk_Timestamp = ts\<rparr>"

definition recordOf :: "string \<Rightarrow> string \<Rightarrow> int \<Rightarrow> payload \<Rightarrow> MarketData" where
  "recordOf src kind ts p =
     \<lparr>md_Exchange = src, md_Symbol = ''BTCUSDT'', md_Type = kind, md_Source = src,
      md_Timestamp = ts, md_Data = p\<rparr>"

definition allAt :: "int \<Rightarrow> readings" where
  "allAt t = \<lparr>at_cache = t, at_internal = t, at_external = t, at_external_asks = t,
              at_book = t, at_emit = t\<rparr>"

definition depthOf :: "PriceLevel list \<Rightarrow> PriceLevel list \<Rightarrow> int \<Rightarrow> OrderBook" where
  "depthOf bids asks ts =
     \<lparr>ob_Symbol = ''BTCUSDT'', ob_Bids = bids, ob_Asks = asks, ob_Timestamp = ts\<rparr>"

definition tradeOf :: "real \<Rightarrow> real \<Rightarrow> int \<Rightarrow> Trade" where
  "tradeOf price amount ts =
     \<lparr>tr_Symbol = ''BTCUSDT'', tr_TradeID = ''1'', tr_Price = price, tr_Amount = amount,
      tr_Side = ''buy'', tr_Timestamp = ts\<rparr>"

definition staleInternalMerger :: DataMerger where
  "staleInternalMerger =
     \<lparr>symbolConfigs = [''BTCUSDT'' \<mapsto> hybridConfig MergeStrategyPriority],
      internalData = [''BTCUSDT'' \<mapsto>
         \<lparr>cd_Ticker = Some (tickerOf 45000 7 1000),
          cd_Depth = Some (depthOf [\<lparr>pl_Price = 44999, pl_Amount = 3 / 2\<rparr>] [] 1000),
          cd_Trades = [], cd_Timestamp = 1000\<rparr>],
      externalData = Map.empty\<rparr>"

text \<open>An engine whose two sides were both last written at 1000.\<close>

definition staleSidesMerger :: DataMerger where
  "staleSidesMerger =
     \<lparr>symbolConfigs = [''BTCUSDT'' \<mapsto> hybridConfig MergeStrategyPriority],
      internalData = [''BTCUSDT'' \<mapsto>
         \<lparr>cd_Ticker = Some (tickerOf 45000 7 1000),
          cd_Depth = Some (depthOf [\<lparr>pl_Price = 44999, pl_Amount = 3 / 2\<rparr>] [] 1000),
          cd_Trades = [], cd_Timestamp = 1000\<rparr>],
      externalData = [''BTCUSDT'' \<mapsto>
         \<lparr>cd_Ticker = Some (tickerOf 44990 3 1000),
          cd_Depth = Some (depthOf [\<lparr>pl_Price = 44998, pl_Amount = 2\<rparr>] [] 1000),
          cd_Trades = [], cd_Timestamp = 1000\<rparr>]\<rparr>"

section \<open>Candle boundaries (common/utils, time helpers)\<close>

text \<open>
  Timestamps are \<open>int64\<close>: integers from \<open>-2^63\<close> to \<open>2^63 - 1\<close>. \<open>wrap64\<close> gives the
  \<open>int64\<close> that an \<open>int64\<close> operation yields for the exact result \<open>x\<close>.
\<close>

definition wrap64 :: "int \<Rightarrow> int" where
  "wrap64 x = (x + 9223372036854775808) mod 18446744073709551616 - 9223372036854775808"

text \<open>
  The functions below call Go's \<open>time\<close> package. Of that package the model keeps what
  they use. A \<open>Time\<close> is an instant, given by its exact number of milliseconds since the
  epoch: the library keeps seconds and nanoseconds apart and has room for every instant
  that a millisecond count in \<open>int64\<close> names, and for those a period away, so
  \<open>time.UnixMilli\<close>, \<open>Add\<close> and \<open>time.Date\<close> are exact. \<open>t.UnixMilli()\<close> multiplies the
  seconds by 1000 in \<open>int64\<close>, so it is \<open>wrap64\<close> of the instant. A \<open>Location\<close> gives
  the offset from UTC, in milliseconds, in force at each instant; \<open>time.UnixMilli\<close>
  returns a time in the process's local location, which is a parameter here. The calendar
  date (\<open>Year\<close>, \<open>Month\<close>, \<open>Day\<close>) of a time is carried as the number of its local
  calendar day, since the code only passes the three back to \<open>time.Date\<close> unchanged.
  \<open>time.Date\<close> takes the wall clock reading as if it were UTC, looks up the offset in
  force there, and, when the instant so obtained lies under another offset, uses the
  offset in force at that instant.
\<close>

type_synonym Location = "int \<Rightarrow> int"

definition time_Day :: "Location \<Rightarrow> int \<Rightarrow> int" where
  "time_Day loc t = (t + loc t) div 86400000"

definition time_Hour :: "Location \<Rightarrow> int \<Rightarrow> int" where
  "time_Hour loc t = ((t + loc t) mod 86400000) div 3600000"

definition time_Minute :: "Location \<Rightarrow> int \<Rightarrow> int" where
  "time_Minute loc t = ((t + loc t) mod 3600000) div 60000"

text \<open>\<open>time.Date(year, month, day, hour, min, 0, 0, loc)\<close>, the instant.\<close>

definition time_Date :: "Location \<Rightarrow> int \<Rightarrow> int \<Rightarrow> int \<Rightarrow> int" where
  "time_Date loc day hour minute =
     (let wall = day * 86400000 + hour * 3600000 + minute * 60000
      in wall - loc (wall - loc wall))"

text \<open>\<open>t.UnixMilli()\<close> of the time at an instant.\<close>

definition time_UnixMilli :: "int \<Rightarrow> int" where
  "time_UnixMilli instant = wrap64 instant"

definition GetKlineOpenTime :: "Location \<Rightarrow> int \<Rightarrow> string \<Rightarrow> int" where
  "GetKlineOpenTime loc timestamp interval =
     (if interval = ''1m'' then
        time_UnixMilli (time_Date loc (time_Day loc timestamp) (time_Hour loc timestamp)
                          (time_Minute loc timestamp))
      else if interval = ''5m'' then
        (let minute = time_Minute loc timestamp div 5 * 5
         in time_UnixMilli (time_Date loc (time_Day loc timestamp) (time_Hour loc timestamp) minute))
      else if interval = ''15m'' then
        (let minute = time_Minute loc timestamp div 15 * 15
         in time_UnixMilli (time_Date loc (time_Day loc timestamp) (time_Hour loc timestamp) minute))
      else if interval = ''30m'' then
        (let minute = time_Minute loc timestamp div 30 * 30
         in time_UnixMilli (time_Date loc (time_Day loc timestamp) (time_Hour loc timestamp) minute))
      else if interval = ''1h'' then
        time_UnixMilli (time_Date loc (time_Day loc timestamp) (time_Hour loc timestamp) 0)
      else if interval = ''4h'' then
        (let hour = time_Hour loc timestamp div 4 * 4
         in time_UnixMilli (time_Date loc (time_Day loc timestamp) hour 0))
      else if interval = ''1d'' then
        time_UnixMilli (time_Date loc (time_Day loc timestamp) 0 0)
      else timestamp)"

text \<open>
  \<open>t.Add(d).UnixMilli() - 1\<close>: the addition is exact, \<open>UnixMilli()\<close> and the subtraction
  are \<open>int64\<close> operations. The result does not depend on the location.
\<close>

definition GetKlineCloseTime :: "int \<Rightarrow> string \<Rightarrow> int" where
  "GetKlineCloseTime openTime interval =
     (if interval = ''1m'' then wrap64 (time_UnixMilli (openTime + 1 * 60000) - 1)
      else if interval = ''5m'' then wrap64 (time_UnixMilli (openTime + 5 * 60000) - 1)
      else if interval = ''15m'' then wrap64 (time_UnixMilli (openTime + 15 * 60000) - 1)
      else if interval = ''30m'' then wrap64 (time_UnixMilli (openTime + 30 * 60000) - 1)
      else if interval = ''1h'' then wrap64 (time_UnixMilli (openTime + 1 * 3600000) - 1)
      else if interval = ''4h'' then wrap64 (time_UnixMilli (openTime + 4 * 3600000) - 1)
      else if interval = ''1d'' then wrap64 (time_UnixMilli (openTime + 24 * 3600000) - 1)
      else openTime)"

definition IsNewKline :: "Location \<Rightarrow> int \<Rightarrow> int \<Rightarrow> string \<Rightarrow> bool" where
  "IsNewKline loc currentOpenTime tradeTime interval \<longleftrightarrow>
     GetKlineOpenTime loc tradeTime interval \<noteq> currentOpenTime"

subsection \<open>Notions used to state the candle boundaries\<close>

text \<open>The intervals \<open>NewKlineHandler\<close> maintains, and the length of each in milliseconds.\<close>

definition maintainedIntervals :: "string list" where
  "maintainedIntervals = [''1m'', ''5m'', ''15m'', ''1h'', ''4h'', ''1d'']"

definition period :: "string \<Rightarrow> int" where
  "period interval =
     (if interval = ''1m'' then 60000
      else if interval = ''5m'' then 300000
      else if interval = ''15m'' then 900000
      else if interval = ''1h'' then 3600000
      else if interval = ''4h'' then 14400000
      else if interval = ''1d'' then 86400000
      else 0)"

text \<open>
  Locations: one offset at all times; Shanghai since its last summer time, which ended on
  1991-09-15 (UTC+9 before, UTC+8 since); New York around the end of summer time on
  2024-11-03.
\<close>

definition fixedZone :: "int \<Rightarrow> Location" where
  "fixedZone offset t = offset"

definition shanghaiSince1991 :: Location where
  "shanghaiSince1991 t = (if t < 684867600000 then 32400000 else 28800000)"

definition newYorkAutumn2024 :: Location where
  "newYorkAutumn2024 t = (if t < 1730613600000 then - 14400000 else - 18000000)"

section \<open>Hot key/value store (services/processor/internal/storage/redis.go)\<close>

text \<open>
  The store is the Redis state the service writes: hashes, string values, lists, expiry
  times in seconds, and the log of \<open>PUBLISH\<close> commands in order. \<open>utils.ToJSON\<close> of a
  struct is kept as the struct under a tag. A command fails when the connection is down
  (\<open>rs_up\<close> false) and then changes nothing; the source ignores the results of \<open>Expire\<close>
  and \<open>Publish\<close>.
\<close>

datatype json = JTicker Ticker | JDepth OrderBook | JTrade Trade | JKline Kline

datatype hashval = FloatVal real | IntVal int

datatype error = StorageError

record RedisStorage =
  rs_up :: bool
  rs_hashes :: "string \<rightharpoonup> (string \<rightharpoonup> hashval)"
  rs_strings :: "string \<rightharpoonup> json"
  rs_lists :: "string \<rightharpoonup> json list"
  rs_expire :: "string \<rightharpoonup> int"
  rs_published :: "(string \<times> json) list"

definition listAt :: "RedisStorage \<Rightarrow> string \<Rightarrow> json list" where
  "listAt s key = (case rs_lists s key of None \<Rightarrow> [] | Some l \<Rightarrow> l)"

definition SaveKline :: "Kline \<Rightarrow> RedisStorage \<Rightarrow> error option \<times> RedisStorage" where
  "SaveKline kline s =
     (let key = RedisKeyKline @ kl_Symbol kline @ '':'' @ kl_Interval kline;
          data = JKline kline
      in if \<not> rs_up s then (Some StorageError, s)
         else (None, s\<lparr>rs_lists := (rs_lists s)(key \<mapsto> take 1000 (data # listAt s key)),
                       rs_expire := (rs_expire s)(key \<mapsto> 7 * 24 * 3600)\<rparr>))"

definition SaveTicker :: "Ticker \<Rightarrow> RedisStorage \<Rightarrow> error option \<times> RedisStorage" where
  "SaveTicker ticker s =
     (let key = RedisKeyTicker @ tk_Symbol ticker;
          data = [''last_price'' \<mapsto> FloatVal (tk_LastPrice ticker),
                  ''bid_price'' \<mapsto> FloatVal (tk_BidPrice ticker),
                  ''ask_price'' \<mapsto> FloatVal (tk_AskPrice ticker),
                  ''high_24h'' \<mapsto> FloatVal (tk_High24h ticker),
                  ''low_24h'' \<mapsto> FloatVal (tk_Low24h ticker),
                  ''volume_24h'' \<mapsto> FloatVal (tk_Volume24h ticker),
                  ''timestamp'' \<mapsto> IntVal (tk_Timestamp ticker)]
      in if \<not> rs_up s then (Some StorageError, s)
         else
           (let old = (case rs_hashes s key of None \<Rightarrow> Map.empty | Some h \<Rightarrow> h);
                s1 = s\<lparr>rs_hashes := (rs_hashes s)(key \<mapsto> old ++ data)\<rparr>;
                s2 = s1\<lparr>rs_expire := (rs_expire s1)(key \<mapsto> 3600)\<rparr>;
                channel = RedisChannelMarket @ tk_Symbol ticker @ '':'' @ DataTypeTicker;
                jsonData = JTicker ticker
            in (None, s2\<lparr>rs_published := rs_published s2 @ [(channel, jsonData)]\<rparr>)))"

definition SaveDepth :: "OrderBook \<Rightarrow> RedisStorage \<Rightarrow> error option \<times> RedisStorage" where
  "SaveDepth depth s =
     (let key = RedisKeyDepth @ ob_Symbol depth;
          data = JDepth depth
      in if \<not> rs_up s then (Some StorageError, s)
         else
           (let s1 = s\<lparr>rs_strings := (rs_strings s)(key \<mapsto> data),
                       rs_expire := (rs_expire s)(key \<mapsto> 3600)\<rparr>;
                channel = RedisChannelMarket @ ob_Symbol depth @ '':'' @ DataTypeDepth
            in (None, s1\<lparr>rs_published := rs_published s1 @ [(channel, data)]\<rparr>)))"

definition SaveTrade :: "Trade \<Rightarrow> RedisStorage \<Rightarrow> error option \<times> RedisStorage" where
  "SaveTrade trade s =
     (let key = RedisKeyTrade @ tr_Symbol trade;
          data = JTrade trade
      in if \<not> rs_up s then (Some StorageError, s)
         else
           (let s1 = s\<lparr>rs_lists := (rs_lists s)(key \<mapsto> take 100 (data # listAt s key)),
                       rs_expire := (rs_expire s)(key \<mapsto> 3600)\<rparr>;
                channel = RedisChannelMarket @ tr_Symbol trade @ '':'' @ DataTypeTrade
            in (None, s1\<lparr>rs_published := rs_published s1 @ [(channel, data)]\<rparr>)))"

text \<open>\<open>GetDepth\<close>: the book stored under \<open>depth:{symbol}\<close>, or an error.\<close>

definition GetDepth :: "string \<Rightarrow> RedisStorage \<Rightarrow> error + OrderBook" where
  "GetDepth symbol s =
     (if \<not> rs_up s then Inl StorageError
      else case rs_strings s (RedisKeyDepth @ symbol) of
             Some (JDepth b) \<Rightarrow> Inr b
           | _ \<Rightarrow> Inl StorageError)"

definition emptyRedis :: RedisStorage where
  "emptyRedis = \<lparr>rs_up = True, rs_hashes = Map.empty, rs_strings = Map.empty,
                 rs_lists = Map.empty, rs_expire = Map.empty, rs_published = []\<rparr>"

section \<open>Candle aggregation (services/processor/internal/handler, kline)\<close>

record KlineAggregator =
  ka_symbol :: string
  ka_interval :: string
  currentKline :: "Kline option"

definition NewKlineAggregator :: "string \<Rightarrow> string \<Rightarrow> KlineAggregator" where
  "NewKlineAggregator symbol interval =
     \<lparr>ka_symbol = symbol, ka_interval = interval, currentKline = None\<rparr>"

text \<open>
  \<open>updateKline\<close> works on \<open>k := a.currentKline\<close>, which \<open>AddTrade\<close> has made non-nil
  before the call; the model passes that candle.
\<close>

definition updateKline :: "Trade \<Rightarrow> Kline \<Rightarrow> Kline" where
  "updateKline trade k =
     (let k1 = (if tr_Price trade > kl_High k then k\<lparr>kl_High := tr_Price trade\<rparr> else k);
          k2 = (if tr_Price trade < kl_Low k1 then k1\<lparr>kl_Low := tr_Price trade\<rparr> else k1);
          k3 = k2\<lparr>kl_Close := tr_Price trade\<rparr>;
          k4 = k3\<lparr>kl_Volume := kl_Volume k3 + tr_Amount trade\<rparr>;
          k5 = k4\<lparr>kl_QuoteVol := kl_QuoteVol k4 + tr_Price trade * tr_Amount trade\<rparr>
      in k5\<lparr>kl_TradeNum := kl_TradeNum k5 + 1\<rparr>)"

definition saveKline :: "KlineAggregator \<Rightarrow> RedisStorage \<Rightarrow> error option \<times> RedisStorage" where
  "saveKline a s =
     (case currentKline a of
        None \<Rightarrow> (None, s)
      | Some k \<Rightarrow> SaveKline k s)"

text \<open>\<open>&models.Kline{...}\<close> in \<open>AddTrade\<close>: the candle a period starts with.\<close>

definition newKline :: "KlineAggregator \<Rightarrow> int \<Rightarrow> Trade \<Rightarrow> Kline" where
  "newKline a openTime trade =
     \<lparr>kl_Symbol = ka_symbol a, kl_Interval = ka_interval a,
      kl_OpenTime = openTime, kl_CloseTime = GetKlineCloseTime openTime (ka_interval a),
      kl_Open = tr_Price trade, kl_High = tr_Price trade, kl_Low = tr_Price trade,
      kl_Close = tr_Price trade, kl_Volume = 0, kl_QuoteVol = 0, kl_TradeNum = 0\<rparr>"

text \<open>
  \<open>AddTrade\<close> returns its error (always \<open>nil\<close>: a failed save is only logged), the
  aggregator and the store.
\<close>

definition AddTrade ::
  "Location \<Rightarrow> Trade \<Rightarrow> KlineAggregator \<times> RedisStorage \<Rightarrow>
     error option \<times> KlineAggregator \<times> RedisStorage" where
  "AddTrade loc trade as =
     (let a = fst as; s = snd as;
          openTime = GetKlineOpenTime loc (tr_Timestamp trade) (ka_interval a)
      in case currentKline a of
           None \<Rightarrow>
             (None, a\<lparr>currentKline := Some (updateKline trade (newKline a openTime trade))\<rparr>, s)
         | Some k \<Rightarrow>
             if kl_OpenTime k \<noteq> openTime then
               (let s1 = snd (saveKline a s)
                in (None,
                    a\<lparr>currentKline := Some (updateKline trade (newKline a openTime trade))\<rparr>,
                    s1))
             else (None, a\<lparr>currentKline := Some (updateKline trade k)\<rparr>, s))"

text \<open>Feeding trades to one aggregator, one after the other.\<close>

fun feedTrades ::
  "Location \<Rightarrow> Trade list \<Rightarrow> KlineAggregator \<times> RedisStorage \<Rightarrow> KlineAggregator \<times> RedisStorage" where
  "feedTrades loc [] as = as"
| "feedTrades loc (t # ts) as = feedTrades loc ts (snd (AddTrade loc t as))"

text \<open>A one-minute candle of BTCUSDT opening at 04:30:00 UTC on 2024-11-04.\<close>

definition candleAt0430 :: "real \<Rightarrow> real \<Rightarrow> real \<Rightarrow> int \<Rightarrow> Kline" where
  "candleAt0430 price amount quote n =
     \<lparr>kl_Symbol = ''BTCUSDT'', kl_Interval = ''1m'',
      kl_OpenTime = 1730694600000, kl_CloseTime = 1730694659999,
      kl_Open = price, kl_High = price, kl_Low = price, kl_Close = price,
      kl_Volume = amount, kl_QuoteVol = quote, kl_TradeNum = n\<rparr>"

section \<open>Order books (services/processor/internal/handler/depth.go)\<close>

record DepthManager =
  dm_symbol :: string
  dm_bids :: "PriceLevel list"
  dm_asks :: "PriceLevel list"

definition NewDepthManager :: "string \<Rightarrow> DepthManager" where
  "NewDepthManager symbol = \<lparr>dm_symbol = symbol, dm_bids = [], dm_asks = []\<rparr>"

definition sortDepth :: "DepthManager \<Rightarrow> DepthManager" where
  "sortDepth m =
     m\<lparr>dm_bids := sort_Slice (\<lambda>a b. pl_Price a > pl_Price b) (dm_bids m),
       dm_asks := sort_Slice (\<lambda>a b. pl_Price a < pl_Price b) (dm_asks m)\<rparr>"

definition UpdateDepth ::
  "OrderBook \<Rightarrow> DepthManager \<times> RedisStorage \<Rightarrow> error option \<times> DepthManager \<times> RedisStorage" where
  "UpdateDepth depth ms =
     (let m = fst ms; s = snd ms;
          m1 = m\<lparr>dm_bids := ob_Bids depth, dm_asks := ob_Asks depth\<rparr>;
          m2 = sortDepth m1;
          orderBook = \<lparr>ob_Symbol = dm_symbol m2, ob_Bids = dm_bids m2, ob_Asks = dm_asks m2,
                       ob_Timestamp = ob_Timestamp depth\<rparr>
      in case SaveDepth orderBook s of
           (Some err, s1) \<Rightarrow> (Some err, m2, s1)
         | (None, s1) \<Rightarrow> (None, m2, s1))"

definition GetBestBid :: "DepthManager \<Rightarrow> PriceLevel option" where
  "GetBestBid m = (case dm_bids m of [] \<Rightarrow> None | b # _ \<Rightarrow> Some b)"

definition GetBestAsk :: "DepthManager \<Rightarrow> PriceLevel option" where
  "GetBestAsk m = (case dm_asks m of [] \<Rightarrow> None | a # _ \<Rightarrow> Some a)"

text \<open>Full-replace updates, one after the other.\<close>

fun updateAll :: "OrderBook list \<Rightarrow> DepthManager \<times> RedisStorage \<Rightarrow> DepthManager \<times> RedisStorage" where
  "updateAll [] ms = ms"
| "updateAll (d # ds) ms = updateAll ds (snd (UpdateDepth d ms))"

subsection \<open>Notions used to state the properties of order books\<close>

definition bidsSorted :: "PriceLevel list \<Rightarrow> bool" where
  "bidsSorted bids \<longleftrightarrow> sorted_wrt (\<lambda>a b. pl_Price a \<ge> pl_Price b) bids"

definition asksSorted :: "PriceLevel list \<Rightarrow> bool" where
  "asksSorted asks \<longleftrightarrow> sorted_wrt (\<lambda>a b. pl_Price a \<le> pl_Price b) asks"

definition level :: "real \<Rightarrow> real \<Rightarrow> PriceLevel" where
  "level price amount = \<lparr>pl_Price = price, pl_Amount = amount\<rparr>"

text \<open>
  The books of a symbol are sorted: the one the manager holds, and the one \<open>GetDepth\<close>
  returns from the store, if any.
\<close>

definition booksSorted :: "string \<Rightarrow> DepthManager \<times> RedisStorage \<Rightarrow> bool" where
  "booksSorted symbol ms \<longleftrightarrow>
     dm_symbol (fst ms) = symbol \<and>
     bidsSorted (dm_bids (fst ms)) \<and> asksSorted (dm_asks (fst ms)) \<and>
     (\<forall>b. GetDepth symbol (snd ms) = Inr b \<longrightarrow>
        bidsSorted (ob_Bids b) \<and> asksSorted (ob_Asks b))"

section \<open>Fan-out hub (services/api/internal/websocket)\<close>

subsection \<open>Channels of the Go runtime\<close>

text \<open>
  A buffered channel is its buffer, its capacity and whether it was closed. A send in a
  \<open>select\<close> with a \<open>default\<close> branch puts the value into the buffer when there is room,
  takes the \<open>default\<close> branch when the buffer is full, and panics on a closed channel.
\<close>

record 'a chan =
  ch_buf :: "'a list"
  ch_cap :: nat
  ch_closed :: bool

definition make_chan :: "nat \<Rightarrow> 'a chan" where
  "make_chan n = \<lparr>ch_buf = [], ch_cap = n, ch_closed = False\<rparr>"

datatype 'a sent = Sent "'a chan" | WouldBlock | Panicked

definition trySend :: "'a \<Rightarrow> 'a chan \<Rightarrow> 'a sent" where
  "trySend x c =
     (if ch_closed c then Panicked
      else if length (ch_buf c) < ch_cap c then Sent (c\<lparr>ch_buf := ch_buf c @ [x]\<rparr>)
      else WouldBlock)"

subsection \<open>Keys of a Go map with values \<open>true\<close>\<close>

text \<open>
  A \<open>map[K]bool\<close> whose values are all \<open>true\<close> is the list of its keys, without
  repetition; \<open>range\<close> visits them in the order of the list, which stands for whatever
  order the runtime picks.
\<close>

definition mapSet :: "'a \<Rightarrow> 'a list \<Rightarrow> 'a list" where
  "mapSet x xs = (if x \<in> set xs then xs else xs @ [x])"

definition mapDelete :: "'a \<Rightarrow> 'a list \<Rightarrow> 'a list" where
  "mapDelete x xs = removeAll x xs"

subsection \<open>Subscription index (subscription manager)\<close>

text \<open>A client is the address of its \<open>Client\<close> object.\<close>

type_synonym client = nat

record SubscriptionManager =
  channelSubscribers :: "string \<rightharpoonup> client list"
  clientSubscriptions :: "client \<rightharpoonup> string list"

definition NewSubscriptionManager :: SubscriptionManager where
  "NewSubscriptionManager = \<lparr>channelSubscribers = Map.empty, clientSubscriptions = Map.empty\<rparr>"

definition Subscribe :: "client \<Rightarrow> string \<Rightarrow> SubscriptionManager \<Rightarrow> SubscriptionManager" where
  "Subscribe client channel sm =
     (let subscribers = (case channelSubscribers sm channel of None \<Rightarrow> [] | Some l \<Rightarrow> l);
          sm1 = sm\<lparr>channelSubscribers :=
                     (channelSubscribers sm)(channel \<mapsto> mapSet client subscribers)\<rparr>;
          channels = (case clientSubscriptions sm1 client of None \<Rightarrow> [] | Some l \<Rightarrow> l)
      in sm1\<lparr>clientSubscriptions :=
                (clientSubscriptions sm1)(client \<mapsto> mapSet channel channels)\<rparr>)"

text \<open>
  The block that \<open>Unsubscribe\<close> and the loop of \<open>UnsubscribeAll\<close> share: take the client
  out of a channel's subscribers and drop the channel when nobody is left.
\<close>

definition removeSubscriber :: "client \<Rightarrow> string \<Rightarrow> SubscriptionManager \<Rightarrow> SubscriptionManager" where
  "removeSubscriber client channel sm =
     (case channelSubscribers sm channel of
        None \<Rightarrow> sm
      | Some subscribers \<Rightarrow>
          (let subscribers1 = mapDelete client subscribers
           in if length subscribers1 = 0
              then sm\<lparr>channelSubscribers := (channelSubscribers sm)(channel := None)\<rparr>
              else sm\<lparr>channelSubscribers := (channelSubscribers sm)(channel \<mapsto> subscribers1)\<rparr>))"


definition UnsubscribeAll :: "client \<Rightarrow> SubscriptionManager \<Rightarrow> SubscriptionManager" where
  "UnsubscribeAll client sm =
     (case clientSubscriptions sm client of
        None \<Rightarrow> sm
      | Some channels \<Rightarrow>
          (let sm1 = fold (removeSubscriber client) channels sm
           in sm1\<lparr>clientSubscriptions := (clientSubscriptions sm1)(client := None)\<rparr>))"

definition GetSubscribers :: "string \<Rightarrow> SubscriptionManager \<Rightarrow> client list" where
  "GetSubscribers channel sm = (case channelSubscribers sm channel of None \<Rightarrow> [] | Some l \<Rightarrow> l)"

definition GetClientSubscriptions :: "client \<Rightarrow> SubscriptionManager \<Rightarrow> string list" where
  "GetClientSubscriptions client sm =
     (case clientSubscriptions sm client of None \<Rightarrow> [] | Some l \<Rightarrow> l)"

subsection \<open>Hub and clients (hub.go, client.go)\<close>

text \<open>
  Frames put on a client's send queue: a market update \<open>{channel, data}\<close>, a response
  \<open>{type, data}\<close> whose data, when present, is the pair of channel and symbol, and an
  error \<open>{type: "error", error}\<close>.
\<close>

datatype frame =
    MarketFrame string json
  | ResponseFrame string "(string \<times> string) option"
  | ErrorFrame string

record BroadcastMessage =
  bm_Channel :: string
  bm_Data :: json

text \<open>
  The hub with the objects it reaches: \<open>sends\<close> is the send queue of each client object,
  \<open>conn_open\<close> tells whether the socket of a client is still open. The sends to the
  \<open>unregister\<close> channel inside \<open>broadcastToChannel\<close> are blocking sends made by the hub's
  own loop, which is the only receiver of that channel: with the buffer full such a send
  never returns.
\<close>

record Hub =
  clients :: "client list"
  hub_register :: "client chan"
  hub_unregister :: "client chan"
  hub_broadcast :: "BroadcastMessage chan"
  subscriptionManager :: SubscriptionManager
  sends :: "client \<Rightarrow> frame chan"
  conn_open :: "client \<Rightarrow> bool"

datatype hub_error = SendOnClosedChannel | CloseOfClosedChannel | BlockedForever

text \<open>\<open>NewHub\<close>; every client object is made by \<open>NewClient\<close> with a queue of 256.\<close>

definition NewHub :: Hub where
  "NewHub =
     \<lparr>clients = [], hub_register = make_chan 256, hub_unregister = make_chan 256,
      hub_broadcast = make_chan 1024, subscriptionManager = NewSubscriptionManager,
      sends = (\<lambda>c. make_chan 256), conn_open = (\<lambda>c. True)\<rparr>"

definition Hub_Subscribe :: "client \<Rightarrow> string \<Rightarrow> Hub \<Rightarrow> Hub" where
  "Hub_Subscribe client channel h =
     h\<lparr>subscriptionManager := Subscribe client channel (subscriptionManager h)\<rparr>"


text \<open>The loop \<open>for client := range subscribers\<close> of \<open>broadcastToChannel\<close>.\<close>

fun sendToSubscribers :: "frame \<Rightarrow> client list \<Rightarrow> Hub \<Rightarrow> hub_error + Hub" where
  "sendToSubscribers jsonMessage [] h = Inr h"
| "sendToSubscribers jsonMessage (client # rest) h =
     (case trySend jsonMessage (sends h client) of
        Sent q \<Rightarrow> sendToSubscribers jsonMessage rest (h\<lparr>sends := (sends h)(client := q)\<rparr>)
      | WouldBlock \<Rightarrow>
          (case trySend client (hub_unregister h) of
             Sent u \<Rightarrow> sendToSubscribers jsonMessage rest (h\<lparr>hub_unregister := u\<rparr>)
           | WouldBlock \<Rightarrow> Inl BlockedForever
           | Panicked \<Rightarrow> Inl SendOnClosedChannel)
      | Panicked \<Rightarrow> Inl SendOnClosedChannel)"

definition broadcastToChannel :: "BroadcastMessage \<Rightarrow> Hub \<Rightarrow> hub_error + Hub" where
  "broadcastToChannel message h =
     (let subscribers = GetSubscribers (bm_Channel message) (subscriptionManager h)
      in if length subscribers = 0 then Inr h
         else sendToSubscribers (MarketFrame (bm_Channel message) (bm_Data message))
                subscribers h)"

text \<open>
  The case \<open>client := <-h.register\<close> of \<open>Run\<close>: the client is entered under the lock,
  the lock is released, and then the count is logged.
\<close>

definition runRegister :: "client \<Rightarrow> Hub \<Rightarrow> Hub" where
  "runRegister client h = h\<lparr>clients := mapSet client (clients h)\<rparr>"

text \<open>
  The case \<open>client := <-h.unregister\<close> of \<open>Run\<close>. For a registered client the loop,
  holding the write lock \<open>h.mu\<close>, deletes the client, closes its send queue and removes
  its subscriptions, and then logs \<open>h.ClientCount()\<close>, which asks for the read lock of
  the same mutex while the write lock is held: that call never returns, and so neither
  does the loop. The result is the hub as the other goroutines find it, and how the case
  ended for the loop: \<open>None\<close> when it goes on, \<open>Some BlockedForever\<close> when it stays in
  \<open>ClientCount\<close>, \<open>Some CloseOfClosedChannel\<close> when \<open>close\<close> panics.
\<close>

definition runUnregister :: "client \<Rightarrow> Hub \<Rightarrow> hub_error option \<times> Hub" where
  "runUnregister client h =
     (if client \<in> set (clients h) then
        (let h1 = h\<lparr>clients := mapDelete client (clients h)\<rparr>
         in if ch_closed (sends h1 client) then (Some CloseOfClosedChannel, h1)
            else (Some BlockedForever,
                  h1\<lparr>sends := (sends h1)(client := (sends h1 client)\<lparr>ch_closed := True\<rparr>),
                     subscriptionManager := UnsubscribeAll client (subscriptionManager h1)\<rparr>))
      else (None, h))"


definition sendError :: "string \<Rightarrow> client \<Rightarrow> Hub \<Rightarrow> hub_error + Hub" where
  "sendError errMsg client h =
     (case trySend (ErrorFrame errMsg) (sends h client) of
        Sent q \<Rightarrow> Inr (h\<lparr>sends := (sends h)(client := q)\<rparr>)
      | WouldBlock \<Rightarrow> Inr h
      | Panicked \<Rightarrow> Inl SendOnClosedChannel)"

definition sendResponse ::
  "string \<Rightarrow> (string \<times> string) option \<Rightarrow> client \<Rightarrow> Hub \<Rightarrow> hub_error + Hub" where
  "sendResponse responseType data client h =
     (case trySend (ResponseFrame responseType data) (sends h client) of
        Sent q \<Rightarrow> Inr (h\<lparr>sends := (sends h)(client := q)\<rparr>)
      | WouldBlock \<Rightarrow> Inr h
      | Panicked \<Rightarrow> Inl SendOnClosedChannel)"

definition buildChannelName :: "string \<Rightarrow> string \<Rightarrow> string" where
  "buildChannelName channel symbol =
     (if symbol \<noteq> [] then channel @ '':'' @ symbol else channel)"

text \<open>
  A decoded client message is a JSON object; of its values the handlers only ask whether
  they are strings. \<open>stringField\<close> is the type assertion \<open>msg[key].(string)\<close>.
\<close>

datatype jvalue = JString string | JOther

definition stringField :: "(string \<rightharpoonup> jvalue) \<Rightarrow> string \<Rightarrow> string option" where
  "stringField msg key = (case msg key of Some (JString s) \<Rightarrow> Some s | _ \<Rightarrow> None)"

definition handleSubscribe :: "(string \<rightharpoonup> jvalue) \<Rightarrow> client \<Rightarrow> Hub \<Rightarrow> hub_error + Hub" where
  "handleSubscribe msg client h =
     (case stringField msg ''channel'' of
        None \<Rightarrow> sendError ''Missing 'channel' field'' client h
      | Some channel \<Rightarrow>
          (let symbol = (case stringField msg ''symbol'' of None \<Rightarrow> [] | Some s \<Rightarrow> s);
               fullChannel = buildChannelName channel symbol;
               h1 = Hub_Subscribe client fullChannel h
           in sendResponse ''subscribed'' (Some (channel, symbol)) client h1))"




subsection \<open>Bridge from the pub/sub bus (broadcaster)\<close>

definition TrimPrefix :: "string \<Rightarrow> string \<Rightarrow> string" where
  "TrimPrefix s pre = (if take (length pre) s = pre then drop (length pre) s else s)"

text \<open>
  \<open>handleRedisMessage\<close>, up to the message it hands to \<open>hub.Broadcast\<close>; the payload is
  already the decoded value.
\<close>

definition handleRedisMessage :: "string \<times> json \<Rightarrow> BroadcastMessage" where
  "handleRedisMessage msg =
     \<lparr>bm_Channel = TrimPrefix (fst msg) ''market:'', bm_Data = snd msg\<rparr>"

text \<open>
  The broadcaster's own publishers, "for the Processor service to call", with the channel
  they publish on; the store stands for the Redis client, and the error of \<open>Publish\<close> is
  returned.
\<close>

definition BroadcastTicker :: "string \<Rightarrow> Ticker \<Rightarrow> RedisStorage \<Rightarrow> error option \<times> RedisStorage" where
  "BroadcastTicker symbol ticker s =
     (let channel = ''ticker:'' @ symbol;
          data = JTicker ticker
      in if \<not> rs_up s then (Some StorageError, s)
         else (None, s\<lparr>rs_published := rs_published s @ [(''market:'' @ channel, data)]\<rparr>))"

definition BroadcastDepth :: "string \<Rightarrow> OrderBook \<Rightarrow> RedisStorage \<Rightarrow> error option \<times> RedisStorage" where
  "BroadcastDepth symbol depth s =
     (let channel = ''depth:'' @ symbol;
          data = JDepth depth
      in if \<not> rs_up s then (Some StorageError, s)
         else (None, s\<lparr>rs_published := rs_published s @ [(''market:'' @ channel, data)]\<rparr>))"

definition BroadcastTrade :: "string \<Rightarrow> Trade \<Rightarrow> RedisStorage \<Rightarrow> error option \<times> RedisStorage" where
  "BroadcastTrade symbol trade s =
     (let channel = ''trade:'' @ symbol;
          data = JTrade trade
      in if \<not> rs_up s then (Some StorageError, s)
         else (None, s\<lparr>rs_published := rs_published s @ [(''market:'' @ channel, data)]\<rparr>))"

subsection \<open>Notions used to state the properties of the hub\<close>

text \<open>The send queue of a client has no room.\<close>

definition queueFull :: "Hub \<Rightarrow> client \<Rightarrow> bool" where
  "queueFull h c \<longleftrightarrow> \<not> length (ch_buf (sends h c)) < ch_cap (sends h c)"



text \<open>The subscriptions of a client in the hub a handler returns.\<close>

definition subscriptionsAfter :: "client \<Rightarrow> hub_error + Hub \<Rightarrow> string list" where
  "subscriptionsAfter client r =
     (case r of Inl e \<Rightarrow> [] | Inr h \<Rightarrow> GetClientSubscriptions client (subscriptionManager h))"

text \<open>
  Hubs to run the handlers on: one client subscribed to the ticker of BTCUSDT; one client
  holding twenty subscriptions; two clients on one channel, the first with a full queue;
  257 clients on one channel, all with full queues.
\<close>

definition subscribedHub :: Hub where
  "subscribedHub = Hub_Subscribe 7 (buildChannelName ''ticker'' ''BTCUSDT'') (runRegister 7 NewHub)"

definition twentySymbols :: "string list" where
  "twentySymbols =
     [''S01'', ''S02'', ''S03'', ''S04'', ''S05'', ''S06'', ''S07'', ''S08'', ''S09'', ''S10'',
      ''S11'', ''S12'', ''S13'', ''S14'', ''S15'', ''S16'', ''S17'', ''S18'', ''S19'', ''S20'']"

definition hubWithTwenty :: Hub where
  "hubWithTwenty =
     fold (\<lambda>symbol. Hub_Subscribe 7 (buildChannelName ''ticker'' symbol)) twentySymbols
       (runRegister 7 NewHub)"

definition subscribeRequest :: "string \<Rightarrow> string \<Rightarrow> (string \<rightharpoonup> jvalue)" where
  "subscribeRequest channel symbol =
     [''action'' \<mapsto> JString ''subscribe'', ''channel'' \<mapsto> JString channel,
      ''symbol'' \<mapsto> JString symbol]"

definition fullQueue :: "frame chan" where
  "fullQueue = \<lparr>ch_buf = replicate 256 (ResponseFrame ''pong'' None), ch_cap = 256,
                ch_closed = False\<rparr>"


definition crowdedHub :: Hub where
  "crowdedHub =
     NewHub\<lparr>clients := [0..<257],
            subscriptionManager :=
              \<lparr>channelSubscribers = [''ticker:BTCUSDT'' \<mapsto> [0..<257]],
               clientSubscriptions = (\<lambda>c. if c < 257 then Some [''ticker:BTCUSDT''] else None)\<rparr>,
            sends := (\<lambda>c. fullQueue)\<rparr>"

definition tickerUpdate :: BroadcastMessage where
  "tickerUpdate = \<lparr>bm_Channel = ''ticker:BTCUSDT'', bm_Data = JTicker (tickerOf 45000 7 1000)\<rparr>"

section \<open>Theorems\<close>

text \<open>
  C7. For every internal cache, external cache and symbol, the supplement-strategy ticker
  merge returns exactly the merged ticker of the priority-strategy ticker merge: as
  functions of the clock readings, the two caches and the symbol, the two are equal.
\<close>

theorem C7_supplement_ticker_is_priority:
  "mergeTickerSupplement = mergeTickerPriority"
  by (intro ext) (simp add: mergeTickerSupplement_def)

subsection \<open>Fusion engine: ticker merge\<close>

lemma freshTicker_cached:
  "freshTicker now c = Some t \<Longrightarrow> cachedTicker c = Some t"
  by (cases c) (auto split: option.splits if_splits)

text \<open>
  C6. Hybrid ticker merging under the priority strategy, for every pair of cached sides.
  When the internal side is fresh (it has a ticker and its timestamp is less than 5000 ms
  old at the check), last price, bid, ask, 24h high and low and the timestamp are those of
  the internal ticker and \<open>last_price_source\<close> is internal. Otherwise, when the external
  side is fresh, they are those of the external ticker and \<open>last_price_source\<close> is
  external. In both cases \<open>internal_volume_24h\<close> and \<open>external_volume_24h\<close> are the
  volumes of the tickers the two caches hold, whether or not the caches are fresh (zero for
  a cache without a ticker), and \<open>total_volume_24h\<close> is their sum.
\<close>

theorem C6_priority_ticker_merge:
  "(freshTicker (at_internal rd) internal = Some it \<longrightarrow>
      mergeTickerPriority rd internal external symbol =
        Some \<lparr>tws_Symbol = symbol,
              tws_LastPrice = tk_LastPrice it,
              tws_LastPriceSource = SourceInternal,
              tws_BidPrice = tk_BidPrice it,
              tws_AskPrice = tk_AskPrice it,
              tws_High24h = tk_High24h it,
              tws_Low24h = tk_Low24h it,
              tws_InternalVolume24h = cachedVolume24h internal,
              tws_ExternalVolume24h = cachedVolume24h external,
              tws_TotalVolume24h = cachedVolume24h internal + cachedVolume24h external,
              tws_Timestamp = tk_Timestamp it\<rparr>) \<and>
   (freshTicker (at_internal rd) internal = None \<and>
    freshTicker (at_external rd) external = Some et \<longrightarrow>
      mergeTickerPriority rd internal external symbol =
        Some \<lparr>tws_Symbol = symbol,
              tws_LastPrice = tk_LastPrice et,
              tws_LastPriceSource = SourceExternal,
              tws_BidPrice = tk_BidPrice et,
              tws_AskPrice = tk_AskPrice et,
              tws_High24h = tk_High24h et,
              tws_Low24h = tk_Low24h et,
              tws_InternalVolume24h = cachedVolume24h internal,
              tws_ExternalVolume24h = cachedVolume24h external,
              tws_TotalVolume24h = cachedVolume24h internal + cachedVolume24h external,
              tws_Timestamp = tk_Timestamp et\<rparr>)"
  by (auto simp: mergeTickerPriority_def newTickerWithSource_def Let_def
      dest: freshTicker_cached split: option.splits)

theorem C6_priority_ticker_merge_witness:
  "mergeTickerPriority (allAt 10000)
     (Some \<lparr>cd_Ticker = Some (tickerOf 45000 7 9000), cd_Depth = None, cd_Trades = [],
            cd_Timestamp = 9000\<rparr>)
     (Some \<lparr>cd_Ticker = Some (tickerOf 45010 5 2000), cd_Depth = None, cd_Trades = [],
            cd_Timestamp = 2000\<rparr>) ''BTCUSDT''
   = Some \<lparr>tws_Symbol = ''BTCUSDT'', tws_LastPrice = 45000,
           tws_LastPriceSource = ''internal'', tws_BidPrice = 44999, tws_AskPrice = 45001,
           tws_High24h = 45100, tws_Low24h = 44900, tws_InternalVolume24h = 7,
           tws_ExternalVolume24h = 5, tws_TotalVolume24h = 12, tws_Timestamp = 9000\<rparr>
   \<and>
   mergeTickerPriority (allAt 10000)
     (Some \<lparr>cd_Ticker = Some (tickerOf 45000 7 3000), cd_Depth = None, cd_Trades = [],
            cd_Timestamp = 3000\<rparr>)
     (Some \<lparr>cd_Ticker = Some (tickerOf 45010 5 9900), cd_Depth = None, cd_Trades = [],
            cd_Timestamp = 9900\<rparr>) ''BTCUSDT''
   = Some \<lparr>tws_Symbol = ''BTCUSDT'', tws_LastPrice = 45010,
           tws_LastPriceSource = ''external'', tws_BidPrice = 45009, tws_AskPrice = 45011,
           tws_High24h = 45110, tws_Low24h = 44910, tws_InternalVolume24h = 7,
           tws_ExternalVolume24h = 5, tws_TotalVolume24h = 12, tws_Timestamp = 9900\<rparr>"
  using
    C6_priority_ticker_merge [of "allAt 10000"
      "Some \<lparr>cd_Ticker = Some (tickerOf 45000 7 9000), cd_Depth = None, cd_Trades = [],
            cd_Timestamp = 9000\<rparr>" "tickerOf 45000 7 9000"
      "Some \<lparr>cd_Ticker = Some (tickerOf 45010 5 2000), cd_Depth = None, cd_Trades = [],
            cd_Timestamp = 2000\<rparr>" "''BTCUSDT''" "tickerOf 45010 5 2000"]
    C6_priority_ticker_merge [of "allAt 10000"
      "Some \<lparr>cd_Ticker = Some (tickerOf 45000 7 3000), cd_Depth = None, cd_Trades = [],
            cd_Timestamp = 3000\<rparr>" "tickerOf 45000 7 3000"
      "Some \<lparr>cd_Ticker = Some (tickerOf 45010 5 9900), cd_Depth = None, cd_Trades = [],
            cd_Timestamp = 9900\<rparr>" "''BTCUSDT''" "tickerOf 45010 5 9900"]
  by (simp add: allAt_def tickerOf_def isDataFresh_def DataFreshnessThreshold_def Second_def
      SourceInternal_def SourceExternal_def)


subsection \<open>Fusion engine: caching, freshness checks and merges\<close>

lemma stale_no_freshTicker:
  "\<not> sideFresh now c \<Longrightarrow> freshTicker now c = None"
  by (cases c) (auto split: option.splits)

lemma stale_no_freshDepth:
  "\<not> sideFresh now c \<Longrightarrow> freshDepth now c = None"
  by (cases c) (auto split: option.splits)

lemma mode_strings_distinct:
  "ModeHybrid \<noteq> ModeInternalOnly" "ModeHybrid \<noteq> ModeExternalOnly"
  by (simp_all add: ModeHybrid_def ModeInternalOnly_def ModeExternalOnly_def)

lemma kind_strings_distinct: "DataTypeDepth \<noteq> DataTypeTicker"
  by (simp add: DataTypeDepth_def DataTypeTicker_def)

lemma priority_from_internal:
  assumes "freshTicker (at_internal rd) internal = Some it"
  shows "mergeTickerPriority rd internal external symbol =
           Some (mergedFrom symbol SourceInternal it
                   (cachedVolume24h internal) (cachedVolume24h external))"
  using assms
  by (auto simp: mergeTickerPriority_def newTickerWithSource_def mergedFrom_def Let_def
      dest: freshTicker_cached split: option.splits)

lemma priority_from_external:
  assumes "freshTicker (at_internal rd) internal = None"
    and "freshTicker (at_external rd) external = Some et"
  shows "mergeTickerPriority rd internal external symbol =
           Some (mergedFrom symbol SourceExternal et
                   (cachedVolume24h internal) (cachedVolume24h external))"
  using assms
  by (auto simp: mergeTickerPriority_def newTickerWithSource_def mergedFrom_def Let_def
      dest: freshTicker_cached split: option.splits)

lemma priority_none_iff:
  "mergeTickerPriority rd internal external symbol = None \<longleftrightarrow>
     freshTicker (at_internal rd) internal = None \<and>
     freshTicker (at_external rd) external = None"
  by (auto simp: mergeTickerPriority_def Let_def split: option.splits)

text \<open>Whatever the strategy, \<open>mergeTicker\<close> wraps the result of the priority merge.\<close>

lemma mergeTicker_wraps:
  "mergeTicker rd symbol config m =
     map_option (\<lambda>t. mergedRecord rd symbol DataTypeTicker (MergedTickerData t))
       (mergeTickerPriority rd (internalData m symbol) (externalData m symbol) symbol)"
  by (simp add: mergeTicker_def mergeTickerSupplement_def mergedRecord_def Let_def
      split: option.splits)

lemma ProcessData_hybrid:
  assumes "symbolConfigs m (md_Symbol d) = Some config" and "sc_Mode config = ModeHybrid"
  shows "ProcessData rd d m = mergeData rd d config m"
  using assms by (simp add: ProcessData_def mode_strings_distinct)

lemma cacheData_other_side:
  "md_Source d = SourceInternal \<Longrightarrow> externalData (cacheData t d m) = externalData m"
  "md_Source d \<noteq> SourceInternal \<Longrightarrow> internalData (cacheData t d m) = internalData m"
  by (simp_all add: cacheData_def Let_def)

lemma cacheData_own_side:
  "md_Source d = SourceInternal \<Longrightarrow>
     internalData (cacheData t d m) = sideData (cacheData t d m) (md_Source d)"
  "md_Source d \<noteq> SourceInternal \<Longrightarrow>
     externalData (cacheData t d m) = sideData (cacheData t d m) (md_Source d)"
  by (simp_all add: sideData_def)

lemma cacheData_payload:
  "\<exists>c. sideData (cacheData t d m) (md_Source d) (md_Symbol d) = Some c \<and>
        cd_Timestamp c = t \<and>
        (md_Type d = DataTypeTicker \<longrightarrow> md_Data d = TickerData tk \<longrightarrow> cd_Ticker c = Some tk) \<and>
        (md_Type d = DataTypeDepth \<longrightarrow> md_Data d = DepthData b \<longrightarrow> cd_Depth c = Some b)"
  by (cases "sideData m (md_Source d) (md_Symbol d)")
    (auto simp: cacheData_def sideData_def Let_def kind_strings_distinct)

lemma freshTicker_after_ticker:
  assumes "md_Type d = DataTypeTicker" and "md_Data d = TickerData tk"
    and "isDataFresh now t"
  shows "freshTicker now (sideData (cacheData t d m) (md_Source d) (md_Symbol d)) = Some tk"
proof -
  obtain c where "sideData (cacheData t d m) (md_Source d) (md_Symbol d) = Some c"
    and "cd_Timestamp c = t" and "cd_Ticker c = Some tk"
    using cacheData_payload [of t d m tk] assms(1,2) by auto
  with assms(3) show ?thesis by simp
qed

lemma freshDepth_after_depth:
  assumes "md_Type d = DataTypeDepth" and "md_Data d = DepthData b"
    and "isDataFresh now t"
  shows "freshDepth now (sideData (cacheData t d m) (md_Source d) (md_Symbol d)) = Some b"
proof -
  obtain c where "sideData (cacheData t d m) (md_Source d) (md_Symbol d) = Some c"
    and "cd_Timestamp c = t" and "cd_Depth c = Some b"
    using cacheData_payload [of t d m _ b] assms(1,2) by auto
  with assms(3) show ?thesis by simp
qed

lemma cachedTicker_after_ticker:
  assumes "md_Type d = DataTypeTicker" and "md_Data d = TickerData tk"
  shows "cachedTicker (sideData (cacheData t d m) (md_Source d) (md_Symbol d)) = Some tk"
proof -
  obtain c where "sideData (cacheData t d m) (md_Source d) (md_Symbol d) = Some c"
    and "cd_Ticker c = Some tk"
    using cacheData_payload [of t d m tk] assms by auto
  then show ?thesis by simp
qed

text \<open>What the depth merges count, for either strategy.\<close>

lemma mergeDepth_counts:
  "\<exists>book. mergeDepth rd symbol config m =
            Some (mergedRecord rd symbol DataTypeDepth (MergedDepthData book)) \<and>
     obs_InternalBidsCount book =
       (case freshDepth (at_internal rd) (internalData m symbol) of
          None \<Rightarrow> 0 | Some b \<Rightarrow> int (length (ob_Bids b))) \<and>
     obs_InternalAsksCount book =
       (case freshDepth (at_internal rd) (internalData m symbol) of
          None \<Rightarrow> 0 | Some b \<Rightarrow> int (length (ob_Asks b))) \<and>
     (freshDepth (at_external rd) (externalData m symbol) = None \<longrightarrow>
        obs_ExternalBidsCount book = 0) \<and>
     (sc_MergeStrategy config \<noteq> MergeStrategySupplement \<or>
      freshDepth (at_internal rd) (internalData m symbol) = None \<longrightarrow>
        obs_ExternalBidsCount book =
          (case freshDepth (at_external rd) (externalData m symbol) of
             None \<Rightarrow> 0 | Some b \<Rightarrow> int (length (ob_Bids b))))"
  by (auto simp: mergeDepth_def mergeDepthPriority_def mergeDepthSupplement_def
      addInternalDepth_def sortBook_def newOrderBookWithSource_def mergedRecord_def Let_def
      split: option.splits)

lemma ticker_record_answer:
  assumes cfg: "symbolConfigs m (md_Symbol d) = Some config" "sc_Mode config = ModeHybrid"
    and kind: "md_Type d = DataTypeTicker"
  shows "fst (ProcessData rd d m) =
           map_option (\<lambda>t. mergedRecord rd (md_Symbol d) DataTypeTicker (MergedTickerData t))
             (mergeTickerPriority rd
                (internalData (cacheData (at_cache rd) d m) (md_Symbol d))
                (externalData (cacheData (at_cache rd) d m) (md_Symbol d)) (md_Symbol d))"
  using kind
  by (simp add: ProcessData_hybrid [OF cfg] mergeData_def Let_def mergeTicker_wraps)

lemma depth_record_answer:
  assumes cfg: "symbolConfigs m (md_Symbol d) = Some config" "sc_Mode config = ModeHybrid"
    and kind: "md_Type d = DataTypeDepth"
  shows "fst (ProcessData rd d m) =
           mergeDepth rd (md_Symbol d) config (cacheData (at_cache rd) d m)"
  using kind
  by (simp add: ProcessData_hybrid [OF cfg] mergeData_def Let_def kind_strings_distinct)

lemma cacheData_side_fields:
  "\<exists>c. sideData (cacheData t d m) (md_Source d) (md_Symbol d) = Some c \<and>
        cd_Timestamp c = t \<and>
        (md_Type d \<noteq> DataTypeTicker \<longrightarrow>
           cd_Ticker c = cachedTicker (sideData m (md_Source d) (md_Symbol d))) \<and>
        (md_Type d \<noteq> DataTypeDepth \<longrightarrow>
           cd_Depth c = cachedDepth (sideData m (md_Source d) (md_Symbol d)))"
  by (cases "sideData m (md_Source d) (md_Symbol d)")
    (auto simp: cacheData_def sideData_def Let_def emptyCachedData_def split: payload.splits)

text \<open>
  The side of the record just cached is fresh at every check made less than 5000 ms after
  the caching.
\<close>

lemma fresh_after_caching:
  assumes "isDataFresh now t"
  shows "sideFresh now (sideData (cacheData t d m) (md_Source d) (md_Symbol d))"
proof -
  obtain c where "sideData (cacheData t d m) (md_Source d) (md_Symbol d) = Some c"
    and "cd_Timestamp c = t"
    using cacheData_side_fields [of t d m] by blast
  with assms show ?thesis by simp
qed







subsection \<open>Fusion engine: stale sides\<close>

text \<open>
  C2 (amended). For every symbol configured in hybrid mode, the incoming record is cached
  before the merge and stamps its own side with the time of caching. Processing an incoming
  ticker record emits nothing exactly when, after that caching, neither side holds a ticker
  that passes its freshness check. When neither cached side was fresh beforehand and the
  checks come less than 5000 ms after the caching, a ticker record that carries a ticker
  is answered with the merged ticker drawn from the incoming ticker, with the record's side
  as source of the last price. Processing an incoming depth record always emits a merged
  book; when neither cached side was fresh beforehand, the bids counted in that book are
  those of the incoming book, on the record's side.
\<close>

theorem C2_incoming_record_refreshes_its_side:
  assumes "symbolConfigs m (md_Symbol d) = Some config"
    and "sc_Mode config = ModeHybrid"
  shows
    "(md_Type d = DataTypeTicker \<longrightarrow>
        (fst (ProcessData rd d m) = None \<longleftrightarrow>
           freshTicker (at_internal rd)
             (internalData (cacheData (at_cache rd) d m) (md_Symbol d)) = None \<and>
           freshTicker (at_external rd)
             (externalData (cacheData (at_cache rd) d m) (md_Symbol d)) = None)) \<and>
     (md_Type d = DataTypeTicker \<and> md_Data d = TickerData tk \<and>
      \<not> sideFresh (at_internal rd) (internalData m (md_Symbol d)) \<and>
      \<not> sideFresh (at_external rd) (externalData m (md_Symbol d)) \<and>
      isDataFresh (at_internal rd) (at_cache rd) \<and>
      isDataFresh (at_external rd) (at_cache rd) \<longrightarrow>
        fst (ProcessData rd d m) =
          Some (mergedRecord rd (md_Symbol d) DataTypeTicker
                  (MergedTickerData
                     (if md_Source d = SourceInternal
                      then mergedFrom (md_Symbol d) SourceInternal tk (tk_Volume24h tk)
                             (cachedVolume24h (externalData m (md_Symbol d)))
                      else mergedFrom (md_Symbol d) SourceExternal tk
                             (cachedVolume24h (internalData m (md_Symbol d)))
                             (tk_Volume24h tk))))) \<and>
     (md_Type d = DataTypeDepth \<longrightarrow> fst (ProcessData rd d m) \<noteq> None) \<and>
     (md_Type d = DataTypeDepth \<and> md_Data d = DepthData b \<and>
      \<not> sideFresh (at_internal rd) (internalData m (md_Symbol d)) \<and>
      \<not> sideFresh (at_external rd) (externalData m (md_Symbol d)) \<and>
      isDataFresh (at_internal rd) (at_cache rd) \<and>
      isDataFresh (at_external rd) (at_cache rd) \<longrightarrow>
        (\<exists>book. fst (ProcessData rd d m) =
                   Some (mergedRecord rd (md_Symbol d) DataTypeDepth (MergedDepthData book)) \<and>
                obs_InternalBidsCount book =
                  (if md_Source d = SourceInternal then int (length (ob_Bids b)) else 0) \<and>
                obs_ExternalBidsCount book =
                  (if md_Source d = SourceInternal then 0 else int (length (ob_Bids b)))))"
proof (intro conjI impI)
  let ?s = "md_Symbol d"
  let ?m = "cacheData (at_cache rd) d m"
  {
    assume "md_Type d = DataTypeTicker"
    then show "fst (ProcessData rd d m) = None \<longleftrightarrow>
           freshTicker (at_internal rd) (internalData ?m ?s) = None \<and>
           freshTicker (at_external rd) (externalData ?m ?s) = None"
      by (simp add: ticker_record_answer [OF assms] priority_none_iff)
  }
  {
    assume a: "md_Type d = DataTypeTicker \<and> md_Data d = TickerData tk \<and>
      \<not> sideFresh (at_internal rd) (internalData m ?s) \<and>
      \<not> sideFresh (at_external rd) (externalData m ?s) \<and>
      isDataFresh (at_internal rd) (at_cache rd) \<and>
      isDataFresh (at_external rd) (at_cache rd)"
    show "fst (ProcessData rd d m) =
          Some (mergedRecord rd ?s DataTypeTicker
                  (MergedTickerData
                     (if md_Source d = SourceInternal
                      then mergedFrom ?s SourceInternal tk (tk_Volume24h tk)
                             (cachedVolume24h (externalData m ?s))
                      else mergedFrom ?s SourceExternal tk
                             (cachedVolume24h (internalData m ?s))
                             (tk_Volume24h tk))))"
    proof (cases "md_Source d = SourceInternal")
      case True
      have own: "freshTicker (at_internal rd) (internalData ?m ?s) = Some tk"
        using a freshTicker_after_ticker [of d tk "at_internal rd" "at_cache rd" m]
        by (simp add: cacheData_own_side(1) [OF True])
      have vol: "cachedVolume24h (internalData ?m ?s) = tk_Volume24h tk"
        using a cachedTicker_after_ticker [of d tk "at_cache rd" m]
        by (simp add: cacheData_own_side(1) [OF True])
      have oth: "externalData ?m ?s = externalData m ?s"
        by (simp only: cacheData_other_side(1) [OF True])
      have "mergeTickerPriority rd (internalData ?m ?s) (externalData ?m ?s) ?s =
              Some (mergedFrom ?s SourceInternal tk (tk_Volume24h tk)
                      (cachedVolume24h (externalData m ?s)))"
        using priority_from_internal [OF own, of "externalData ?m ?s" ?s]
        by (simp only: vol oth)
      then show ?thesis
        using a True by (simp add: ticker_record_answer [OF assms])
    next
      case False
      have other: "freshTicker (at_internal rd) (internalData ?m ?s) = None"
        using a by (simp add: cacheData_other_side(2) [OF False] stale_no_freshTicker)
      have own: "freshTicker (at_external rd) (externalData ?m ?s) = Some tk"
        using a freshTicker_after_ticker [of d tk "at_external rd" "at_cache rd" m]
        by (simp add: cacheData_own_side(2) [OF False])
      have vol: "cachedVolume24h (externalData ?m ?s) = tk_Volume24h tk"
        using a cachedTicker_after_ticker [of d tk "at_cache rd" m]
        by (simp add: cacheData_own_side(2) [OF False])
      have oth: "internalData ?m ?s = internalData m ?s"
        by (simp only: cacheData_other_side(2) [OF False])
      have "mergeTickerPriority rd (internalData ?m ?s) (externalData ?m ?s) ?s =
              Some (mergedFrom ?s SourceExternal tk
                      (cachedVolume24h (internalData m ?s)) (tk_Volume24h tk))"
        using priority_from_external [OF other own, of ?s]
        by (simp only: vol oth)
      then show ?thesis
        using a False by (simp add: ticker_record_answer [OF assms])
    qed
  }
  {
    assume "md_Type d = DataTypeDepth"
    then show "fst (ProcessData rd d m) \<noteq> None"
      using mergeDepth_counts [of rd ?s config ?m]
      by (auto simp: depth_record_answer [OF assms])
  }
  {
    assume a: "md_Type d = DataTypeDepth \<and> md_Data d = DepthData b \<and>
      \<not> sideFresh (at_internal rd) (internalData m ?s) \<and>
      \<not> sideFresh (at_external rd) (externalData m ?s) \<and>
      isDataFresh (at_internal rd) (at_cache rd) \<and>
      isDataFresh (at_external rd) (at_cache rd)"
    from mergeDepth_counts [of rd ?s config ?m]
    obtain book where bk:
      "mergeDepth rd ?s config ?m =
         Some (mergedRecord rd ?s DataTypeDepth (MergedDepthData book)) \<and>
       obs_InternalBidsCount book =
         (case freshDepth (at_internal rd) (internalData ?m ?s) of
            None \<Rightarrow> 0 | Some b \<Rightarrow> int (length (ob_Bids b))) \<and>
       obs_InternalAsksCount book =
         (case freshDepth (at_internal rd) (internalData ?m ?s) of
            None \<Rightarrow> 0 | Some b \<Rightarrow> int (length (ob_Asks b))) \<and>
       (freshDepth (at_external rd) (externalData ?m ?s) = None \<longrightarrow>
          obs_ExternalBidsCount book = 0) \<and>
       (sc_MergeStrategy config \<noteq> MergeStrategySupplement \<or>
        freshDepth (at_internal rd) (internalData ?m ?s) = None \<longrightarrow>
          obs_ExternalBidsCount book =
            (case freshDepth (at_external rd) (externalData ?m ?s) of
               None \<Rightarrow> 0 | Some b \<Rightarrow> int (length (ob_Bids b))))" ..
    note book = bk [THEN conjunct1] bk [THEN conjunct2, THEN conjunct1]
      bk [THEN conjunct2, THEN conjunct2, THEN conjunct2, THEN conjunct1]
      bk [THEN conjunct2, THEN conjunct2, THEN conjunct2, THEN conjunct2]
    have ans: "fst (ProcessData rd d m) =
                 Some (mergedRecord rd ?s DataTypeDepth (MergedDepthData book))"
      using a book(1) by (simp add: depth_record_answer [OF assms])
    have counts: "obs_InternalBidsCount book =
                  (if md_Source d = SourceInternal then int (length (ob_Bids b)) else 0) \<and>
                obs_ExternalBidsCount book =
                  (if md_Source d = SourceInternal then 0 else int (length (ob_Bids b)))"
    proof (cases "md_Source d = SourceInternal")
      case True
      have own: "freshDepth (at_internal rd) (internalData ?m ?s) = Some b"
        using a freshDepth_after_depth [of d b "at_internal rd" "at_cache rd" m]
        by (simp add: cacheData_own_side(1) [OF True])
      have other: "freshDepth (at_external rd) (externalData ?m ?s) = None"
        using a by (simp add: cacheData_other_side(1) [OF True] stale_no_freshDepth)
      show ?thesis
        using True book(2,3) own other by simp
    next
      case False
      have other: "freshDepth (at_internal rd) (internalData ?m ?s) = None"
        using a by (simp add: cacheData_other_side(2) [OF False] stale_no_freshDepth)
      have own: "freshDepth (at_external rd) (externalData ?m ?s) = Some b"
        using a freshDepth_after_depth [of d b "at_external rd" "at_cache rd" m]
        by (simp add: cacheData_own_side(2) [OF False])
      show ?thesis
        using False book(2,4) own other by simp
    qed
    show "\<exists>book. fst (ProcessData rd d m) =
                   Some (mergedRecord rd ?s DataTypeDepth (MergedDepthData book)) \<and>
                obs_InternalBidsCount book =
                  (if md_Source d = SourceInternal then int (length (ob_Bids b)) else 0) \<and>
                obs_ExternalBidsCount book =
                  (if md_Source d = SourceInternal then 0 else int (length (ob_Bids b)))"
      using ans counts by (intro exI [of _ book]) simp
  }
qed

theorem C2_incoming_record_refreshes_its_side_witness:
  "\<not> sideFresh 10000 (internalData staleSidesMerger ''BTCUSDT'') \<and>
   \<not> sideFresh 10000 (externalData staleSidesMerger ''BTCUSDT'') \<and>
   fst (ProcessData (allAt 10000)
          (recordOf SourceExternal DataTypeTicker 10000 (TickerData (tickerOf 45010 5 10000)))
          staleSidesMerger)
     = Some (mergedRecord (allAt 10000) ''BTCUSDT'' DataTypeTicker
               (MergedTickerData
                  (mergedFrom ''BTCUSDT'' SourceExternal (tickerOf 45010 5 10000) 7 5))) \<and>
   (\<exists>book. fst (ProcessData (allAt 10000)
                  (recordOf SourceExternal DataTypeDepth 10000
                     (DepthData (depthOf [level 45005 4] [] 10000)))
                  staleSidesMerger)
             = Some (mergedRecord (allAt 10000) ''BTCUSDT'' DataTypeDepth (MergedDepthData book)) \<and>
           obs_InternalBidsCount book = 0 \<and> obs_ExternalBidsCount book = 1)"
proof -
  let ?dt = "recordOf SourceExternal DataTypeTicker 10000 (TickerData (tickerOf 45010 5 10000))"
  let ?dd = "recordOf SourceExternal DataTypeDepth 10000
               (DepthData (depthOf [level 45005 4] [] 10000))"
  let ?m = staleSidesMerger
  let ?rd = "allAt 10000"
  have cfg: "symbolConfigs ?m (md_Symbol ?dt) = Some (hybridConfig MergeStrategyPriority)"
    "symbolConfigs ?m (md_Symbol ?dd) = Some (hybridConfig MergeStrategyPriority)"
    by (simp_all add: staleSidesMerger_def recordOf_def)
  have mode: "sc_Mode (hybridConfig MergeStrategyPriority) = ModeHybrid"
    by (simp add: hybridConfig_def)
  have rec: "md_Type ?dt = DataTypeTicker" "md_Data ?dt = TickerData (tickerOf 45010 5 10000)"
    "md_Type ?dd = DataTypeDepth" "md_Data ?dd = DepthData (depthOf [level 45005 4] [] 10000)"
    "md_Symbol ?dt = ''BTCUSDT''" "md_Symbol ?dd = ''BTCUSDT''"
    "md_Source ?dt \<noteq> SourceInternal" "md_Source ?dd \<noteq> SourceInternal"
    by (simp_all add: recordOf_def SourceExternal_def SourceInternal_def)
  have stale: "\<not> sideFresh (at_internal ?rd) (internalData ?m ''BTCUSDT'')"
    "\<not> sideFresh (at_external ?rd) (externalData ?m ''BTCUSDT'')"
    by (simp_all add: staleSidesMerger_def allAt_def isDataFresh_def
        DataFreshnessThreshold_def Second_def)
  have fresh: "isDataFresh (at_internal ?rd) (at_cache ?rd)"
    "isDataFresh (at_external ?rd) (at_cache ?rd)"
    by (simp_all add: allAt_def isDataFresh_def DataFreshnessThreshold_def Second_def)
  have vols: "cachedVolume24h (internalData ?m ''BTCUSDT'') = 7"
    "tk_Volume24h (tickerOf 45010 5 10000) = 5"
    "int (length (ob_Bids (depthOf [level 45005 4] [] 10000))) = 1"
    by (simp_all add: staleSidesMerger_def tickerOf_def depthOf_def)
  have at: "at_internal ?rd = 10000" "at_external ?rd = 10000"
    by (simp_all add: allAt_def)
  from C2_incoming_record_refreshes_its_side [OF cfg(1) mode, of ?rd "tickerOf 45010 5 10000"]
    rec stale fresh vols
  have t: "fst (ProcessData ?rd ?dt ?m)
     = Some (mergedRecord ?rd ''BTCUSDT'' DataTypeTicker
               (MergedTickerData
                  (mergedFrom ''BTCUSDT'' SourceExternal (tickerOf 45010 5 10000) 7 5)))"
    by (simp del: cachedVolume24h.simps)
  from C2_incoming_record_refreshes_its_side
         [OF cfg(2) mode, of ?rd _ "depthOf [level 45005 4] [] 10000"]
    rec stale fresh vols
  have d: "\<exists>book. fst (ProcessData ?rd ?dd ?m)
             = Some (mergedRecord ?rd ''BTCUSDT'' DataTypeDepth (MergedDepthData book)) \<and>
           obs_InternalBidsCount book = 0 \<and> obs_ExternalBidsCount book = 1"
    by (simp add: kind_strings_distinct del: cachedVolume24h.simps)
  from stale t d show ?thesis
    by (simp only: at) simp
qed

text \<open>
  C2 as stated fails: both sides were last written at 1000 and are stale at 10000, and the
  external ticker record and the external depth record that arrive at 10000 are both
  answered, from their own payload.
\<close>

theorem C2_stale_sides_still_answered_counterexample:
  "\<not> sideFresh 10000 (internalData staleSidesMerger ''BTCUSDT'') \<and>
   \<not> sideFresh 10000 (externalData staleSidesMerger ''BTCUSDT'') \<and>
   fst (ProcessData (allAt 10000)
          (recordOf SourceExternal DataTypeTicker 10000 (TickerData (tickerOf 45010 5 10000)))
          staleSidesMerger)
     = Some \<lparr>md_Exchange = ''merged'', md_Symbol = ''BTCUSDT'', md_Type = ''ticker'',
             md_Source = ''merged'', md_Timestamp = 10000,
             md_Data = MergedTickerData
               \<lparr>tws_Symbol = ''BTCUSDT'', tws_LastPrice = 45010,
                tws_LastPriceSource = ''external'', tws_BidPrice = 45009,
                tws_AskPrice = 45011, tws_High24h = 45110, tws_Low24h = 44910,
                tws_InternalVolume24h = 7, tws_ExternalVolume24h = 5,
                tws_TotalVolume24h = 12, tws_Timestamp = 10000\<rparr>\<rparr> \<and>
   fst (ProcessData (allAt 10000)
          (recordOf SourceExternal DataTypeDepth 10000
             (DepthData (depthOf [level 45005 4] [] 10000)))
          staleSidesMerger)
     = Some \<lparr>md_Exchange = ''merged'', md_Symbol = ''BTCUSDT'', md_Type = ''depth'',
             md_Source = ''merged'', md_Timestamp = 10000,
             md_Data = MergedDepthData
               \<lparr>obs_Symbol = ''BTCUSDT'',
                obs_Bids = [\<lparr>pls_Price = 45005, pls_Amount = 4, pls_Source = ''external''\<rparr>],
                obs_Asks = [],
                obs_InternalBidsCount = 0, obs_ExternalBidsCount = 1,
                obs_InternalAsksCount = 0, obs_ExternalAsksCount = 0,
                obs_Timestamp = 10000\<rparr>\<rparr>"
  by (simp add: ProcessData_def mergeData_def mergeTicker_def mergeTickerPriority_def
      newTickerWithSource_def mergeDepth_def mergeDepthPriority_def
      addInternalDepth_def sortBook_def sort_Slice_def newOrderBookWithSource_def
      withSource_def level_def
      cacheData_def recordOf_def staleSidesMerger_def hybridConfig_def depthOf_def
      tickerOf_def allAt_def Let_def isDataFresh_def DataFreshnessThreshold_def Second_def
      SourceExternal_def SourceInternal_def SourceMerged_def DataTypeDepth_def
      DataTypeTicker_def ModeHybrid_def ModeInternalOnly_def ModeExternalOnly_def
      MergeStrategyPriority_def)

text \<open>Neither depth merge ever returns \<open>nil\<close>, so a depth record is always answered.\<close>

lemma mergeDepth_always_emits: "mergeDepth rd symbol config m \<noteq> None"
  by (simp add: mergeDepth_def mergeDepthPriority_def mergeDepthSupplement_def Let_def)

subsection \<open>Fusion engine: one timestamp per side\<close>



text \<open>
  The whole run: the internal ticker was cached at 1000; an internal trade arrives at 9000;
  the external ticker that arrives at 10000 is answered with the internal ticker, 9000 ms
  after it was cached.
\<close>

lemma stale_ticker_revived_by_trade:
  "fst (ProcessData (allAt 10000)
         (recordOf SourceExternal DataTypeTicker 10000 (TickerData (tickerOf 45010 5 10000)))
         (snd (ProcessData (allAt 9000)
                (recordOf SourceInternal DataTypeTrade 9000 (TradeData (tradeOf 45050 1 9000)))
                staleInternalMerger)))
   = Some \<lparr>md_Exchange = ''merged'', md_Symbol = ''BTCUSDT'', md_Type = ''ticker'',
           md_Source = ''merged'', md_Timestamp = 10000,
           md_Data = MergedTickerData
             \<lparr>tws_Symbol = ''BTCUSDT'', tws_LastPrice = 45000,
              tws_LastPriceSource = ''internal'', tws_BidPrice = 44999,
              tws_AskPrice = 45001, tws_High24h = 45100, tws_Low24h = 44900,
              tws_InternalVolume24h = 7, tws_ExternalVolume24h = 5,
              tws_TotalVolume24h = 12, tws_Timestamp = 1000\<rparr>\<rparr>"
  by (simp add: ProcessData_def mergeData_def mergeTicker_def mergeTickerPriority_def
      newTickerWithSource_def cacheData_def recordOf_def staleInternalMerger_def
      hybridConfig_def tickerOf_def tradeOf_def allAt_def Let_def isDataFresh_def
      DataFreshnessThreshold_def Second_def
      SourceExternal_def SourceInternal_def SourceMerged_def DataTypeDepth_def
      DataTypeTicker_def DataTypeTrade_def ModeHybrid_def ModeInternalOnly_def
      ModeExternalOnly_def MergeStrategyPriority_def)

subsection \<open>Candle boundaries\<close>

lemma wrap64_id:
  assumes "- 9223372036854775808 \<le> x" and "x \<le> 9223372036854775807"
  shows "wrap64 x = x"
  using assms by (simp add: wrap64_def)

lemma wall_fields:
  fixes l :: int
  defines "D \<equiv> l div 86400000" and "H \<equiv> (l mod 86400000) div 3600000"
    and "M \<equiv> (l mod 3600000) div 60000"
  shows "D * 86400000 + H * 3600000 + M * 60000 \<le> l"
    and "l < D * 86400000 + H * 3600000 + M * 60000 + 60000"
    and "0 \<le> H" and "H < 24" and "0 \<le> M" and "M < 60"
proof -
  have a: "l = 86400000 * D + l mod 86400000"
    unfolding D_def by simp
  have "(l mod 86400000) mod 3600000 = l mod 3600000"
    by (rule mod_mod_cancel) simp
  then have b: "l mod 86400000 = 3600000 * H + l mod 3600000"
    unfolding H_def by (metis mult_div_mod_eq)
  have c: "l mod 3600000 = 60000 * M + (l mod 3600000) mod 60000"
    unfolding M_def by simp
  have bounds: "0 \<le> l mod 86400000" "l mod 86400000 < 86400000"
    "0 \<le> l mod 3600000" "l mod 3600000 < 3600000"
    "0 \<le> (l mod 3600000) mod 60000" "(l mod 3600000) mod 60000 < 60000"
    by simp_all
  show "D * 86400000 + H * 3600000 + M * 60000 \<le> l"
    using a b c bounds by linarith
  show "l < D * 86400000 + H * 3600000 + M * 60000 + 60000"
    using a b c bounds by linarith
  show "0 \<le> H" "H < 24" using b bounds by linarith+
  show "0 \<le> M" "M < 60" using c bounds by linarith+
qed

lemma floor_step:
  fixes x k :: int
  assumes "0 < k"
  shows "x div k * k \<le> x" and "x < x div k * k + k"
proof -
  have e: "x div k * k + x mod k = x"
    by (rule div_mult_mod_eq)
  have b: "0 \<le> x mod k" "x mod k < k"
    using assms by simp_all
  show "x div k * k \<le> x" using e b by linarith
  show "x < x div k * k + k" using e b by linarith
qed

text \<open>
  \<open>time.Date\<close> in a stretch of time with one offset: when the wall clock reading, taken as
  an instant, and the instant it names both lie in the stretch, the result is the reading
  less the offset.
\<close>

lemma time_Date_steady:
  assumes "\<forall>u. lo \<le> u \<and> u \<le> hi \<longrightarrow> loc u = c"
    and "W = day * 86400000 + hour * 3600000 + minute * 60000"
    and "lo \<le> W" "W \<le> hi" "lo \<le> W - c" "W - c \<le> hi"
  shows "time_Date loc day hour minute = W - c"
proof -
  have "loc W = c" using assms(1,3,4) by blast
  moreover have "loc (W - c) = c" using assms(1,5,6) by blast
  ultimately show ?thesis
    using assms(2) by (simp add: time_Date_def Let_def)
qed

lemma aligned:
  fixes D H M :: int
  shows "(D * 86400000 + H * 3600000 + M * 60000) mod 60000 = 0"
    and "(D * 86400000 + H * 3600000 + (M div 5 * 5) * 60000) mod 300000 = 0"
    and "(D * 86400000 + H * 3600000 + (M div 15 * 15) * 60000) mod 900000 = 0"
    and "(D * 86400000 + H * 3600000) mod 3600000 = 0"
    and "(D * 86400000 + (H div 4 * 4) * 3600000) mod 14400000 = 0"
    and "(D * 86400000) mod 86400000 = 0"
proof -
  have "D * 86400000 + H * 3600000 + M * 60000 = 60000 * (D * 1440 + H * 60 + M)"
    by simp
  then show "(D * 86400000 + H * 3600000 + M * 60000) mod 60000 = 0"
    by (simp only: mod_mult_self1_is_0)
  have "D * 86400000 + H * 3600000 + (M div 5 * 5) * 60000
          = 300000 * (D * 288 + H * 12 + M div 5)"
    by simp
  then show "(D * 86400000 + H * 3600000 + (M div 5 * 5) * 60000) mod 300000 = 0"
    by (simp only: mod_mult_self1_is_0)
  have "D * 86400000 + H * 3600000 + (M div 15 * 15) * 60000
          = 900000 * (D * 96 + H * 4 + M div 15)"
    by simp
  then show "(D * 86400000 + H * 3600000 + (M div 15 * 15) * 60000) mod 900000 = 0"
    by (simp only: mod_mult_self1_is_0)
  have "D * 86400000 + H * 3600000 = 3600000 * (D * 24 + H)"
    by simp
  then show "(D * 86400000 + H * 3600000) mod 3600000 = 0"
    by (simp only: mod_mult_self1_is_0)
  have "D * 86400000 + (H div 4 * 4) * 3600000 = 14400000 * (D * 6 + H div 4)"
    by simp
  then show "(D * 86400000 + (H div 4 * 4) * 3600000) mod 14400000 = 0"
    by (simp only: mod_mult_self1_is_0)
  show "(D * 86400000) mod 86400000 = 0"
    by simp
qed

lemma date_floor:
  assumes steady: "\<forall>u. t - p - \<bar>c\<bar> \<le> u \<and> u \<le> t + \<bar>c\<bar> \<longrightarrow> loc u = c"
    and W: "W = day * 86400000 + hour * 3600000 + minute * 60000"
    and le: "W \<le> t + c" and gt: "t + c < W + p"
  shows "time_Date loc day hour minute = W - c"
proof (rule time_Date_steady [OF steady W])
  show "t - p - \<bar>c\<bar> \<le> W" using gt by linarith
  show "W \<le> t + \<bar>c\<bar>" using le by linarith
  show "t - p - \<bar>c\<bar> \<le> W - c" using gt by linarith
  show "W - c \<le> t + \<bar>c\<bar>" using le by linarith
qed

lemma period_positive:
  "interval \<in> set maintainedIntervals \<Longrightarrow> 0 < period interval"
  by (auto simp: maintainedIntervals_def period_def)

lemma open_time_steady:
  assumes I: "interval \<in> set maintainedIntervals"
    and steady: "\<forall>u. t - period interval - \<bar>c\<bar> \<le> u \<and> u \<le> t + \<bar>c\<bar> \<longrightarrow> loc u = c"
  shows "\<exists>W. GetKlineOpenTime loc t interval = wrap64 (W - c) \<and>
             W \<le> t + c \<and> t + c < W + period interval \<and> W mod period interval = 0"
proof -
  have "t - period interval - \<bar>c\<bar> \<le> t \<and> t \<le> t + \<bar>c\<bar>"
    using period_positive [OF I] by linarith
  then have here: "loc t = c" using steady by blast
  define l where "l = t + c"
  define D where "D = l div 86400000"
  define H where "H = (l mod 86400000) div 3600000"
  define M where "M = (l mod 3600000) div 60000"
  have f: "time_Day loc t = D" "time_Hour loc t = H" "time_Minute loc t = M"
    using here by (simp_all add: time_Day_def time_Hour_def time_Minute_def D_def H_def M_def l_def)
  have w: "D * 86400000 + H * 3600000 + M * 60000 \<le> l"
    "l < D * 86400000 + H * 3600000 + M * 60000 + 60000"
    "0 \<le> H" "H < 24" "0 \<le> M" "M < 60"
    unfolding D_def H_def M_def by (rule wall_fields)+
  have m5: "M div 5 * 5 \<le> M" "M < M div 5 * 5 + 5"
    by (rule floor_step, simp)+
  have m15: "M div 15 * 15 \<le> M" "M < M div 15 * 15 + 15"
    by (rule floor_step, simp)+
  have h4: "H div 4 * 4 \<le> H" "H < H div 4 * 4 + 4"
    by (rule floor_step, simp)+
  consider "interval = ''1m''" | "interval = ''5m''" | "interval = ''15m''"
    | "interval = ''1h''" | "interval = ''4h''" | "interval = ''1d''"
    using I by (auto simp: maintainedIntervals_def)
  then show ?thesis
  proof cases
    case 1
    define W where "W = D * 86400000 + H * 3600000 + M * 60000"
    have p: "period interval = 60000" using 1 by (simp add: period_def)
    have b: "W \<le> t + c" "t + c < W + period interval"
      using w unfolding W_def p l_def by linarith+
    have "time_Date loc D H M = W - c"
      by (rule date_floor [OF steady _ b]) (simp add: W_def)
    then have "GetKlineOpenTime loc t interval = wrap64 (W - c)"
      using 1 by (simp add: GetKlineOpenTime_def f time_UnixMilli_def)
    moreover have "W mod period interval = 0"
      unfolding W_def p by (rule aligned)
    ultimately show ?thesis using b by (intro exI [of _ W]) simp
  next
    case 2
    define W where "W = D * 86400000 + H * 3600000 + (M div 5 * 5) * 60000"
    have p: "period interval = 300000" using 2 by (simp add: period_def)
    have b: "W \<le> t + c" "t + c < W + period interval"
      using w m5 unfolding W_def p l_def by linarith+
    have "time_Date loc D H (M div 5 * 5) = W - c"
      by (rule date_floor [OF steady _ b]) (simp add: W_def)
    then have "GetKlineOpenTime loc t interval = wrap64 (W - c)"
      using 2 by (simp add: GetKlineOpenTime_def f time_UnixMilli_def Let_def)
    moreover have "W mod period interval = 0"
      unfolding W_def p by (rule aligned)
    ultimately show ?thesis using b by (intro exI [of _ W]) simp
  next
    case 3
    define W where "W = D * 86400000 + H * 3600000 + (M div 15 * 15) * 60000"
    have p: "period interval = 900000" using 3 by (simp add: period_def)
    have b: "W \<le> t + c" "t + c < W + period interval"
      using w m15 unfolding W_def p l_def by linarith+
    have "time_Date loc D H (M div 15 * 15) = W - c"
      by (rule date_floor [OF steady _ b]) (simp add: W_def)
    then have "GetKlineOpenTime loc t interval = wrap64 (W - c)"
      using 3 by (simp add: GetKlineOpenTime_def f time_UnixMilli_def Let_def)
    moreover have "W mod period interval = 0"
      unfolding W_def p by (rule aligned)
    ultimately show ?thesis using b by (intro exI [of _ W]) simp
  next
    case 4
    define W where "W = D * 86400000 + H * 3600000"
    have p: "period interval = 3600000" using 4 by (simp add: period_def)
    have b: "W \<le> t + c" "t + c < W + period interval"
      using w unfolding W_def p l_def by linarith+
    have "time_Date loc D H 0 = W - c"
      by (rule date_floor [OF steady _ b]) (simp add: W_def)
    then have "GetKlineOpenTime loc t interval = wrap64 (W - c)"
      using 4 by (simp add: GetKlineOpenTime_def f time_UnixMilli_def)
    moreover have "W mod period interval = 0"
      unfolding W_def p by (rule aligned)
    ultimately show ?thesis using b by (intro exI [of _ W]) simp
  next
    case 5
    define W where "W = D * 86400000 + (H div 4 * 4) * 3600000"
    have p: "period interval = 14400000" using 5 by (simp add: period_def)
    have b: "W \<le> t + c" "t + c < W + period interval"
      using w h4 unfolding W_def p l_def by linarith+
    have "time_Date loc D (H div 4 * 4) 0 = W - c"
      by (rule date_floor [OF steady _ b]) (simp add: W_def)
    then have "GetKlineOpenTime loc t interval = wrap64 (W - c)"
      using 5 by (simp add: GetKlineOpenTime_def f time_UnixMilli_def Let_def)
    moreover have "W mod period interval = 0"
      unfolding W_def p by (rule aligned)
    ultimately show ?thesis using b by (intro exI [of _ W]) simp
  next
    case 6
    define W where "W = D * 86400000"
    have p: "period interval = 86400000" using 6 by (simp add: period_def)
    have b: "W \<le> t + c" "t + c < W + period interval"
      using w unfolding W_def p l_def by linarith+
    have "time_Date loc D 0 0 = W - c"
      by (rule date_floor [OF steady _ b]) (simp add: W_def)
    then have "GetKlineOpenTime loc t interval = wrap64 (W - c)"
      using 6 by (simp add: GetKlineOpenTime_def f time_UnixMilli_def)
    moreover have "W mod period interval = 0"
      unfolding W_def p by (rule aligned)
    ultimately show ?thesis using b by (intro exI [of _ W]) simp
  qed
qed

lemma close_time_wrapped:
  assumes "interval \<in> set maintainedIntervals"
  shows "GetKlineCloseTime openTime interval =
           wrap64 (wrap64 (openTime + period interval) - 1)"
  using assms
  by (auto simp: maintainedIntervals_def GetKlineCloseTime_def period_def time_UnixMilli_def)

text \<open>
  C9 (amended). Let \<open>I\<close> be an interval of the maintained set and \<open>t\<close> a trade
  timestamp at least one period of \<open>I\<close> away from both ends of the \<open>int64\<close> range,
  and let the local location keep one UTC offset from one period plus the size of the
  offset before \<open>t\<close> until the size of the offset after \<open>t\<close>. Then
  \<open>open_time(t, I) \<le> t \<le> close_time(t, I)\<close>,
  \<open>close_time = open_time + period - 1\<close>, and \<open>open_time\<close> is the floor of \<open>t\<close> to
  \<open>I\<close> in local calendar fields: its local wall clock reading is a multiple of the
  period.
\<close>

theorem C9_candle_boundaries_steady_offset:
  assumes "interval \<in> set maintainedIntervals"
    and "- 9223372036854775808 + period interval \<le> t"
    and "t \<le> 9223372036854775807 - period interval"
    and "\<forall>u. t - period interval - \<bar>offset\<bar> \<le> u \<and> u \<le> t + \<bar>offset\<bar> \<longrightarrow> loc u = offset"
  shows "GetKlineOpenTime loc t interval \<le> t \<and>
         t \<le> GetKlineCloseTime (GetKlineOpenTime loc t interval) interval \<and>
         GetKlineCloseTime (GetKlineOpenTime loc t interval) interval =
           GetKlineOpenTime loc t interval + period interval - 1 \<and>
         (GetKlineOpenTime loc t interval + offset) mod period interval = 0"
proof -
  have "\<exists>W. GetKlineOpenTime loc t interval = wrap64 (W - offset) \<and>
             W \<le> t + offset \<and> t + offset < W + period interval \<and>
             W mod period interval = 0"
    by (rule open_time_steady [OF assms(1,4)])
  then obtain W where Wc: "GetKlineOpenTime loc t interval = wrap64 (W - offset) \<and>
             W \<le> t + offset \<and> t + offset < W + period interval \<and>
             W mod period interval = 0" ..
  note W = Wc [THEN conjunct1] Wc [THEN conjunct2, THEN conjunct1]
    Wc [THEN conjunct2, THEN conjunct2, THEN conjunct1]
    Wc [THEN conjunct2, THEN conjunct2, THEN conjunct2]
  define p where "p = period interval"
  define x where "x = W - offset"
  have pos: "0 < p"
    unfolding p_def by (rule period_positive [OF assms(1)])
  have xb: "x \<le> t" "t < x + p"
    using W(2,3) unfolding x_def p_def by linarith+
  have tb: "- 9223372036854775808 + p \<le> t" "t \<le> 9223372036854775807 - p"
    using assms(2,3) unfolding p_def by simp_all
  have w1: "wrap64 x = x"
    by (rule wrap64_id) (use xb tb pos in linarith)+
  have w2: "wrap64 (x + p) = x + p"
    by (rule wrap64_id) (use xb tb pos in linarith)+
  have w3: "wrap64 (x + p - 1) = x + p - 1"
    by (rule wrap64_id) (use xb tb pos in linarith)+
  have o: "GetKlineOpenTime loc t interval = x"
    using W(1) w1 unfolding x_def by simp
  have c: "GetKlineCloseTime x interval = x + p - 1"
    unfolding close_time_wrapped [OF assms(1)] p_def [symmetric] w2 w3 ..
  have al: "(x + offset) mod p = 0"
    using W(4) unfolding x_def p_def by simp
  show ?thesis
    unfolding o c p_def [symmetric]
    using xb al by (intro conjI) linarith+
qed

theorem C9_candle_boundaries_steady_offset_witness:
  "GetKlineOpenTime shanghaiSince1991 1730694600000 ''4h'' = 1730692800000 \<and>
   GetKlineOpenTime shanghaiSince1991 1730694600000 ''4h'' \<le> 1730694600000 \<and>
   1730694600000 \<le> GetKlineCloseTime (GetKlineOpenTime shanghaiSince1991 1730694600000 ''4h'') ''4h'' \<and>
   GetKlineCloseTime (GetKlineOpenTime shanghaiSince1991 1730694600000 ''4h'') ''4h'' =
     GetKlineOpenTime shanghaiSince1991 1730694600000 ''4h'' + period ''4h'' - 1 \<and>
   (GetKlineOpenTime shanghaiSince1991 1730694600000 ''4h'' + 28800000) mod period ''4h'' = 0"
proof -
  have i: "''4h'' \<in> set maintainedIntervals"
    by (simp add: maintainedIntervals_def)
  have lo: "- 9223372036854775808 + period ''4h'' \<le> 1730694600000"
    and hi: "1730694600000 \<le> 9223372036854775807 - period ''4h''"
    by (simp_all add: period_def)
  have z: "\<forall>u. 1730694600000 - period ''4h'' - \<bar>28800000\<bar> \<le> u \<and> u \<le> 1730694600000 + \<bar>28800000\<bar>
             \<longrightarrow> shanghaiSince1991 u = 28800000"
    by (simp add: shanghaiSince1991_def period_def)
  have v: "GetKlineOpenTime shanghaiSince1991 1730694600000 ''4h'' = 1730692800000"
    by (simp add: GetKlineOpenTime_def time_Date_def time_Day_def time_Hour_def
        time_UnixMilli_def wrap64_def shanghaiSince1991_def Let_def)
  from C9_candle_boundaries_steady_offset [OF i lo hi z] v
  show ?thesis by simp
qed

text \<open>
  C9 as stated fails in two ways. Across a change of offset: in New York, 2024-11-03 has
  25 hours; a trade at 23:30 local time on that day (04:30 UTC on 2024-11-04) gets the
  daily candle that opens at local midnight, and that candle's close time, 24 hours later
  minus one millisecond, is before the trade. At the end of the \<open>int64\<close> range: for the
  timestamp 9223372036854774784 in UTC the close time of the one-minute candle wraps
  around and is negative.
\<close>

theorem C9_candle_boundaries_counterexample:
  "GetKlineOpenTime newYorkAutumn2024 1730694600000 ''1d'' = 1730606400000 \<and>
   GetKlineCloseTime (GetKlineOpenTime newYorkAutumn2024 1730694600000 ''1d'') ''1d''
     = 1730692799999 \<and>
   \<not> 1730694600000 \<le>
       GetKlineCloseTime (GetKlineOpenTime newYorkAutumn2024 1730694600000 ''1d'') ''1d'' \<and>
   GetKlineOpenTime (fixedZone 0) 9223372036854774784 ''1m'' = 9223372036854720000 \<and>
   GetKlineCloseTime (GetKlineOpenTime (fixedZone 0) 9223372036854774784 ''1m'') ''1m''
     = - 9223372036854771617 \<and>
   \<not> 9223372036854774784 \<le>
       GetKlineCloseTime (GetKlineOpenTime (fixedZone 0) 9223372036854774784 ''1m'') ''1m''"
  by (simp add: GetKlineOpenTime_def GetKlineCloseTime_def time_Date_def time_Day_def
      time_Hour_def time_Minute_def time_UnixMilli_def wrap64_def newYorkAutumn2024_def
      fixedZone_def Let_def)

subsection \<open>Candle aggregation\<close>

lemma updateKline_keeps:
  "kl_OpenTime (updateKline trade k) = kl_OpenTime k"
  by (simp add: updateKline_def Let_def)

lemma AddTrade_same_period:
  assumes "currentKline a = Some k"
    and "kl_OpenTime k = GetKlineOpenTime loc (tr_Timestamp trade) (ka_interval a)"
  shows "AddTrade loc trade (a, s) = (None, a\<lparr>currentKline := Some (updateKline trade k)\<rparr>, s)"
  using assms by (simp add: AddTrade_def Let_def)

lemma feedTrades_same_period:
  assumes "\<forall>t \<in> set ts. GetKlineOpenTime loc (tr_Timestamp t) (ka_interval a) = kl_OpenTime k"
    and "currentKline a = Some k"
  shows "snd (feedTrades loc ts (a, s)) = s"
  using assms
proof (induction ts arbitrary: a k)
  case Nil
  then show ?case by simp
next
  case (Cons t ts)
  let ?a = "a\<lparr>currentKline := Some (updateKline t k)\<rparr>"
  have step: "AddTrade loc t (a, s) = (None, ?a, s)"
    using Cons.prems by (simp add: AddTrade_same_period)
  have "snd (feedTrades loc ts (?a, s)) = s"
    by (rule Cons.IH [where k = "updateKline t k"]) (use Cons.prems in \<open>simp_all add: updateKline_keeps\<close>)
  with step show ?case by simp
qed

text \<open>
  C8. For a trade fed to a \<open>KlineAggregator\<close>, with \<open>openTime\<close> the open time computed
  for it. When the aggregator has no open candle, nothing is saved and the new candle is
  started. When the open candle has another open time, that candle is first handed to
  \<open>SaveKline\<close> (which, the store being up, puts it at the head of the list
  \<open>kline:{symbol}:{interval}\<close>, cut to 1000 entries), and then the new candle is
  started. The new candle is initialised with open = high = low = close = price, volume 0
  and 0 trades, and the trade is then applied to it: after this first trade of the period
  the candle has open = high = low = close = price, volume = amount and 1 trade. Trades
  whose open time is that of the open candle leave the store as it is, so nothing is saved
  until a trade of another period arrives.
\<close>

theorem C8_new_period_persists_then_starts:
  "(currentKline a = None \<and>
      openTime = GetKlineOpenTime loc (tr_Timestamp trade) (ka_interval a) \<longrightarrow>
      AddTrade loc trade (a, s) =
        (None, a\<lparr>currentKline := Some (updateKline trade (newKline a openTime trade))\<rparr>, s)) \<and>
   (currentKline a = Some k \<and>
      openTime = GetKlineOpenTime loc (tr_Timestamp trade) (ka_interval a) \<and>
      kl_OpenTime k \<noteq> openTime \<longrightarrow>
      AddTrade loc trade (a, s) =
        (None, a\<lparr>currentKline := Some (updateKline trade (newKline a openTime trade))\<rparr>,
         snd (SaveKline k s)) \<and>
      (rs_up s \<longrightarrow>
         listAt (snd (SaveKline k s)) (''kline:'' @ kl_Symbol k @ '':'' @ kl_Interval k) =
           take 1000 (JKline k # listAt s (''kline:'' @ kl_Symbol k @ '':'' @ kl_Interval k)))) \<and>
   newKline a openTime trade =
     \<lparr>kl_Symbol = ka_symbol a, kl_Interval = ka_interval a,
      kl_OpenTime = openTime, kl_CloseTime = GetKlineCloseTime openTime (ka_interval a),
      kl_Open = tr_Price trade, kl_High = tr_Price trade, kl_Low = tr_Price trade,
      kl_Close = tr_Price trade, kl_Volume = 0, kl_QuoteVol = 0, kl_TradeNum = 0\<rparr> \<and>
   updateKline trade (newKline a openTime trade) =
     \<lparr>kl_Symbol = ka_symbol a, kl_Interval = ka_interval a,
      kl_OpenTime = openTime, kl_CloseTime = GetKlineCloseTime openTime (ka_interval a),
      kl_Open = tr_Price trade, kl_High = tr_Price trade, kl_Low = tr_Price trade,
      kl_Close = tr_Price trade, kl_Volume = tr_Amount trade,
      kl_QuoteVol = tr_Price trade * tr_Amount trade, kl_TradeNum = 1\<rparr> \<and>
   (currentKline a = Some k \<and>
      (\<forall>t \<in> set ts. GetKlineOpenTime loc (tr_Timestamp t) (ka_interval a) = kl_OpenTime k) \<longrightarrow>
      snd (feedTrades loc ts (a, s)) = s)"
proof (intro conjI impI)
  assume "currentKline a = None \<and>
      openTime = GetKlineOpenTime loc (tr_Timestamp trade) (ka_interval a)"
  then show "AddTrade loc trade (a, s) =
        (None, a\<lparr>currentKline := Some (updateKline trade (newKline a openTime trade))\<rparr>, s)"
    by (simp add: AddTrade_def Let_def)
next
  assume "currentKline a = Some k \<and>
      openTime = GetKlineOpenTime loc (tr_Timestamp trade) (ka_interval a) \<and>
      kl_OpenTime k \<noteq> openTime"
  then show "AddTrade loc trade (a, s) =
        (None, a\<lparr>currentKline := Some (updateKline trade (newKline a openTime trade))\<rparr>,
         snd (SaveKline k s))"
    by (simp add: AddTrade_def saveKline_def Let_def)
next
  assume "rs_up s"
  then show "listAt (snd (SaveKline k s)) (''kline:'' @ kl_Symbol k @ '':'' @ kl_Interval k) =
           take 1000 (JKline k # listAt s (''kline:'' @ kl_Symbol k @ '':'' @ kl_Interval k))"
    by (simp add: SaveKline_def listAt_def RedisKeyKline_def Let_def)
next
  show "newKline a openTime trade =
     \<lparr>kl_Symbol = ka_symbol a, kl_Interval = ka_interval a,
      kl_OpenTime = openTime, kl_CloseTime = GetKlineCloseTime openTime (ka_interval a),
      kl_Open = tr_Price trade, kl_High = tr_Price trade, kl_Low = tr_Price trade,
      kl_Close = tr_Price trade, kl_Volume = 0, kl_QuoteVol = 0, kl_TradeNum = 0\<rparr>"
    by (simp add: newKline_def)
next
  show "updateKline trade (newKline a openTime trade) =
     \<lparr>kl_Symbol = ka_symbol a, kl_Interval = ka_interval a,
      kl_OpenTime = openTime, kl_CloseTime = GetKlineCloseTime openTime (ka_interval a),
      kl_Open = tr_Price trade, kl_High = tr_Price trade, kl_Low = tr_Price trade,
      kl_Close = tr_Price trade, kl_Volume = tr_Amount trade,
      kl_QuoteVol = tr_Price trade * tr_Amount trade, kl_TradeNum = 1\<rparr>"
    by (simp add: updateKline_def newKline_def Let_def)
next
  assume "currentKline a = Some k \<and>
      (\<forall>t \<in> set ts. GetKlineOpenTime loc (tr_Timestamp t) (ka_interval a) = kl_OpenTime k)"
  then show "snd (feedTrades loc ts (a, s)) = s"
    using feedTrades_same_period [of ts loc a k s] by simp
qed

theorem C8_new_period_persists_then_starts_witness:
  "AddTrade (fixedZone 0) (tradeOf 45000 (1 / 2) 1730694612345)
     (NewKlineAggregator ''BTCUSDT'' ''1m'', emptyRedis)
   = (None,
      (NewKlineAggregator ''BTCUSDT'' ''1m'')
        \<lparr>currentKline := Some (candleAt0430 45000 (1 / 2) 22500 1)\<rparr>,
      emptyRedis) \<and>
   snd (snd (AddTrade (fixedZone 0) (tradeOf 45050 1 1730694660010)
     ((NewKlineAggregator ''BTCUSDT'' ''1m'')
        \<lparr>currentKline := Some (candleAt0430 45000 (1 / 2) 22500 1)\<rparr>, emptyRedis)))
   = snd (SaveKline (candleAt0430 45000 (1 / 2) 22500 1) emptyRedis) \<and>
   listAt (snd (SaveKline (candleAt0430 45000 (1 / 2) 22500 1) emptyRedis)) ''kline:BTCUSDT:1m''
   = [JKline (candleAt0430 45000 (1 / 2) 22500 1)] \<and>
   snd (feedTrades (fixedZone 0)
          [tradeOf 45010 2 1730694620000, tradeOf 44990 1 1730694650000]
          ((NewKlineAggregator ''BTCUSDT'' ''1m'')
             \<lparr>currentKline := Some (candleAt0430 45000 (1 / 2) 22500 1)\<rparr>, emptyRedis))
   = emptyRedis"
proof -
  let ?a = "NewKlineAggregator ''BTCUSDT'' ''1m''"
  let ?k = "candleAt0430 45000 (1 / 2) 22500 1"
  let ?a1 = "?a\<lparr>currentKline := Some ?k\<rparr>"
  have o1: "GetKlineOpenTime (fixedZone 0) (tr_Timestamp (tradeOf 45000 (1 / 2) 1730694612345))
              (ka_interval ?a) = 1730694600000"
    by (simp add: GetKlineOpenTime_def time_Date_def time_Day_def time_Hour_def time_Minute_def
        time_UnixMilli_def wrap64_def fixedZone_def tradeOf_def NewKlineAggregator_def Let_def)
  have o2: "GetKlineOpenTime (fixedZone 0) (tr_Timestamp (tradeOf 45050 1 1730694660010))
              (ka_interval ?a1) = 1730694660000"
    by (simp add: GetKlineOpenTime_def time_Date_def time_Day_def time_Hour_def time_Minute_def
        time_UnixMilli_def wrap64_def fixedZone_def tradeOf_def NewKlineAggregator_def Let_def)
  have o3: "\<forall>t \<in> set [tradeOf 45010 2 1730694620000, tradeOf 44990 1 1730694650000].
              GetKlineOpenTime (fixedZone 0) (tr_Timestamp t) (ka_interval ?a1) = kl_OpenTime ?k"
    by (simp add: GetKlineOpenTime_def time_Date_def time_Day_def time_Hour_def time_Minute_def
        time_UnixMilli_def wrap64_def fixedZone_def tradeOf_def NewKlineAggregator_def
        candleAt0430_def Let_def)
  have c1: "currentKline ?a = None"
    by (simp add: NewKlineAggregator_def)
  have c2: "currentKline ?a1 = Some ?k" "kl_OpenTime ?k \<noteq> 1730694660000"
    by (simp_all add: candleAt0430_def)
  have up: "rs_up emptyRedis" "listAt emptyRedis ''kline:BTCUSDT:1m'' = []"
    by (simp_all add: emptyRedis_def listAt_def)
  have names: "kl_Symbol ?k = ''BTCUSDT''" "kl_Interval ?k = ''1m''"
    by (simp_all add: candleAt0430_def)
  have first: "updateKline (tradeOf 45000 (1 / 2) 1730694612345)
                 (newKline ?a 1730694600000 (tradeOf 45000 (1 / 2) 1730694612345)) = ?k"
    by (simp add: updateKline_def newKline_def tradeOf_def candleAt0430_def
        NewKlineAggregator_def GetKlineCloseTime_def time_UnixMilli_def wrap64_def Let_def)
  from C8_new_period_persists_then_starts
         [where a = ?a and openTime = 1730694600000 and loc = "fixedZone 0"
            and trade = "tradeOf 45000 (1 / 2) 1730694612345" and s = emptyRedis]
       o1 c1 first
  have w1: "AddTrade (fixedZone 0) (tradeOf 45000 (1 / 2) 1730694612345) (?a, emptyRedis)
            = (None, ?a1, emptyRedis)"
    by simp
  from C8_new_period_persists_then_starts
         [where a = ?a1 and openTime = 1730694660000 and loc = "fixedZone 0"
            and trade = "tradeOf 45050 1 1730694660010" and s = emptyRedis and k = ?k
            and ts = "[tradeOf 45010 2 1730694620000, tradeOf 44990 1 1730694650000]"]
       o2 o3 c2 up names
  have w2: "snd (snd (AddTrade (fixedZone 0) (tradeOf 45050 1 1730694660010) (?a1, emptyRedis)))
              = snd (SaveKline ?k emptyRedis)"
    and w3: "listAt (snd (SaveKline ?k emptyRedis)) ''kline:BTCUSDT:1m'' = [JKline ?k]"
    and w4: "snd (feedTrades (fixedZone 0)
          [tradeOf 45010 2 1730694620000, tradeOf 44990 1 1730694650000] (?a1, emptyRedis))
          = emptyRedis"
    by simp_all
  from w1 w2 w3 w4 show ?thesis by simp
qed

subsection \<open>Order books\<close>

lemma mset_insert_by: "mset (insert_by lt x xs) = add_mset x (mset xs)"
  by (induction xs) simp_all

lemma mset_sort_Slice: "mset (sort_Slice lt xs) = mset xs"
  unfolding sort_Slice_def by (induction xs) (simp_all add: mset_insert_by)

lemma length_sort_Slice: "length (sort_Slice lt xs) = length xs"
  using mset_sort_Slice [of lt xs] by (metis size_mset)

lemma set_insert_by: "set (insert_by lt x xs) = insert x (set xs)"
  using mset_insert_by [of lt x xs] by (metis set_mset_add_mset_insert set_mset_mset)

lemma sorted_insert_by_desc:
  fixes f :: "'a \<Rightarrow> real"
  assumes "sorted_wrt (\<lambda>a b. f a \<ge> f b) xs"
  shows "sorted_wrt (\<lambda>a b. f a \<ge> f b) (insert_by (\<lambda>a b. f a > f b) x xs)"
  using assms
proof (induction xs)
  case Nil
  then show ?case by simp
next
  case (Cons y ys)
  show ?case
  proof (cases "f y > f x")
    case True
    with Cons show ?thesis
      by (auto simp: set_insert_by)
  next
    case False
    with Cons.prems show ?thesis
      by fastforce
  qed
qed

lemma sorted_insert_by_asc:
  fixes f :: "'a \<Rightarrow> real"
  assumes "sorted_wrt (\<lambda>a b. f a \<le> f b) xs"
  shows "sorted_wrt (\<lambda>a b. f a \<le> f b) (insert_by (\<lambda>a b. f a < f b) x xs)"
  using assms
proof (induction xs)
  case Nil
  then show ?case by simp
next
  case (Cons y ys)
  show ?case
  proof (cases "f y < f x")
    case True
    with Cons show ?thesis
      by (auto simp: set_insert_by)
  next
    case False
    with Cons.prems show ?thesis
      by fastforce
  qed
qed

lemma sorted_sort_Slice_desc:
  fixes f :: "'a \<Rightarrow> real"
  shows "sorted_wrt (\<lambda>a b. f a \<ge> f b) (sort_Slice (\<lambda>a b. f a > f b) xs)"
  unfolding sort_Slice_def by (induction xs) (simp_all add: sorted_insert_by_desc)

lemma sorted_sort_Slice_asc:
  fixes f :: "'a \<Rightarrow> real"
  shows "sorted_wrt (\<lambda>a b. f a \<le> f b) (sort_Slice (\<lambda>a b. f a < f b) xs)"
  unfolding sort_Slice_def by (induction xs) (simp_all add: sorted_insert_by_asc)

text \<open>What one update leaves: the manager and, when the save went through, the stored book.\<close>

lemma UpdateDepth_manager:
  "fst (snd (UpdateDepth d (m, s))) =
     \<lparr>dm_symbol = dm_symbol m,
      dm_bids = sort_Slice (\<lambda>a b. pl_Price a > pl_Price b) (ob_Bids d),
      dm_asks = sort_Slice (\<lambda>a b. pl_Price a < pl_Price b) (ob_Asks d)\<rparr>"
  by (simp add: UpdateDepth_def sortDepth_def SaveDepth_def Let_def split: prod.splits option.splits)

lemma UpdateDepth_store:
  "rs_strings (snd (snd (UpdateDepth d (m, s)))) key =
     (if rs_up s \<and> key = RedisKeyDepth @ dm_symbol m
      then Some (JDepth \<lparr>ob_Symbol = dm_symbol m,
              ob_Bids = sort_Slice (\<lambda>a b. pl_Price a > pl_Price b) (ob_Bids d),
              ob_Asks = sort_Slice (\<lambda>a b. pl_Price a < pl_Price b) (ob_Asks d),
              ob_Timestamp = ob_Timestamp d\<rparr>)
      else rs_strings s key)"
  by (simp add: UpdateDepth_def sortDepth_def SaveDepth_def Let_def split: prod.splits option.splits)

lemma UpdateDepth_up:
  "rs_up (snd (snd (UpdateDepth d (m, s)))) = rs_up s"
  by (simp add: UpdateDepth_def sortDepth_def SaveDepth_def Let_def split: prod.splits option.splits)

lemma booksSorted_UpdateDepth:
  assumes "booksSorted symbol ms"
  shows "booksSorted symbol (snd (UpdateDepth d ms))"
proof -
  obtain m s where ms: "ms = (m, s)" by (cases ms)
  have sym: "dm_symbol m = symbol"
    using assms by (simp add: booksSorted_def ms)
  have held: "bidsSorted (dm_bids (fst (snd (UpdateDepth d (m, s)))))"
    "asksSorted (dm_asks (fst (snd (UpdateDepth d (m, s)))))"
    "dm_symbol (fst (snd (UpdateDepth d (m, s)))) = symbol"
    by (simp_all add: UpdateDepth_manager bidsSorted_def asksSorted_def sym
        sorted_sort_Slice_desc sorted_sort_Slice_asc)
  have stored: "bidsSorted (ob_Bids b) \<and> asksSorted (ob_Asks b)"
    if "GetDepth symbol (snd (snd (UpdateDepth d (m, s)))) = Inr b" for b
  proof (cases "rs_up s")
    case True
    with that have "b = \<lparr>ob_Symbol = dm_symbol m,
              ob_Bids = sort_Slice (\<lambda>a b. pl_Price a > pl_Price b) (ob_Bids d),
              ob_Asks = sort_Slice (\<lambda>a b. pl_Price a < pl_Price b) (ob_Asks d),
              ob_Timestamp = ob_Timestamp d\<rparr>"
      by (simp add: GetDepth_def UpdateDepth_store UpdateDepth_up sym)
    then show ?thesis
      by (simp add: bidsSorted_def asksSorted_def sorted_sort_Slice_desc sorted_sort_Slice_asc)
  next
    case False
    with that show ?thesis
      by (simp add: GetDepth_def UpdateDepth_up)
  qed
  show ?thesis
    unfolding booksSorted_def ms using held stored by simp
qed

lemma booksSorted_updateAll:
  "booksSorted symbol ms \<Longrightarrow> booksSorted symbol (updateAll ds ms)"
  by (induction ds arbitrary: ms) (simp_all add: booksSorted_UpdateDepth)

lemma updateAll_snoc:
  "updateAll (ds @ [d]) ms = snd (UpdateDepth d (updateAll ds ms))"
  by (induction ds arbitrary: ms) simp_all

lemma updateAll_last_lengths:
  assumes "ds \<noteq> []"
  shows "length (dm_bids (fst (updateAll ds ms))) = length (ob_Bids (last ds)) \<and>
         length (dm_asks (fst (updateAll ds ms))) = length (ob_Asks (last ds))"
proof -
  obtain ds' d where ds: "ds = ds' @ [d]"
    using assms by (cases ds rule: rev_cases) auto
  obtain m s where ms: "updateAll ds' ms = (m, s)"
    by (cases "updateAll ds' ms")
  show ?thesis
    by (simp add: ds updateAll_snoc ms UpdateDepth_manager length_sort_Slice)
qed

text \<open>
  C3 (amended). After any sequence of full-replace updates of a \<open>DepthManager\<close>, the
  bids it holds are sorted by price descending and the asks by price ascending, and so
  are those of the book the store returns for the symbol (given that a book the store held
  for the symbol beforehand was sorted). The number of levels is not bounded: each side
  has as many levels as the last snapshot had.
\<close>

theorem C3_books_sorted_any_length:
  assumes "\<forall>b. GetDepth symbol s = Inr b \<longrightarrow> bidsSorted (ob_Bids b) \<and> asksSorted (ob_Asks b)"
  shows "bidsSorted (dm_bids (fst (updateAll ds (NewDepthManager symbol, s)))) \<and>
         asksSorted (dm_asks (fst (updateAll ds (NewDepthManager symbol, s)))) \<and>
         (\<forall>b. GetDepth symbol (snd (updateAll ds (NewDepthManager symbol, s))) = Inr b \<longrightarrow>
            bidsSorted (ob_Bids b) \<and> asksSorted (ob_Asks b)) \<and>
         (ds \<noteq> [] \<longrightarrow>
            length (dm_bids (fst (updateAll ds (NewDepthManager symbol, s))))
              = length (ob_Bids (last ds)) \<and>
            length (dm_asks (fst (updateAll ds (NewDepthManager symbol, s))))
              = length (ob_Asks (last ds)))"
proof -
  have "booksSorted symbol (NewDepthManager symbol, s)"
    using assms by (simp add: booksSorted_def NewDepthManager_def bidsSorted_def asksSorted_def)
  then have "booksSorted symbol (updateAll ds (NewDepthManager symbol, s))"
    by (rule booksSorted_updateAll)
  then show ?thesis
    using updateAll_last_lengths [of ds "(NewDepthManager symbol, s)"]
    by (simp add: booksSorted_def)
qed

theorem C3_books_sorted_any_length_witness:
  "fst (updateAll [depthOf [level 44998 2, level 44999 (3 / 2)] [level 45002 1, level 45001 1] 1000]
          (NewDepthManager ''BTCUSDT'', emptyRedis))
     = \<lparr>dm_symbol = ''BTCUSDT'', dm_bids = [level 44999 (3 / 2), level 44998 2],
        dm_asks = [level 45001 1, level 45002 1]\<rparr> \<and>
   bidsSorted [level 44999 (3 / 2), level 44998 2] \<and>
   asksSorted [level 45001 1, level 45002 1] \<and>
   GetDepth ''BTCUSDT''
     (snd (updateAll [depthOf [level 44998 2, level 44999 (3 / 2)] [level 45002 1, level 45001 1] 1000]
          (NewDepthManager ''BTCUSDT'', emptyRedis)))
     = Inr (depthOf [level 44999 (3 / 2), level 44998 2] [level 45001 1, level 45002 1] 1000)"
proof -
  let ?ds = "[depthOf [level 44998 2, level 44999 (3 / 2)] [level 45002 1, level 45001 1] 1000]"
  have none: "\<forall>b. GetDepth ''BTCUSDT'' emptyRedis = Inr b \<longrightarrow>
                bidsSorted (ob_Bids b) \<and> asksSorted (ob_Asks b)"
    by (simp add: GetDepth_def emptyRedis_def)
  have run: "updateAll ?ds (NewDepthManager ''BTCUSDT'', emptyRedis) =
      (\<lparr>dm_symbol = ''BTCUSDT'', dm_bids = [level 44999 (3 / 2), level 44998 2],
        dm_asks = [level 45001 1, level 45002 1]\<rparr>,
       snd (SaveDepth (depthOf [level 44999 (3 / 2), level 44998 2]
                         [level 45001 1, level 45002 1] 1000) emptyRedis))"
    by (simp add: UpdateDepth_def sortDepth_def sort_Slice_def SaveDepth_def NewDepthManager_def
        depthOf_def level_def emptyRedis_def Let_def)
  have got: "GetDepth ''BTCUSDT'' (snd (SaveDepth (depthOf [level 44999 (3 / 2), level 44998 2]
                         [level 45001 1, level 45002 1] 1000) emptyRedis))
     = Inr (depthOf [level 44999 (3 / 2), level 44998 2] [level 45001 1, level 45002 1] 1000)"
    by (simp add: GetDepth_def SaveDepth_def depthOf_def emptyRedis_def Let_def)
  from C3_books_sorted_any_length [OF none, of ?ds] run got
  show ?thesis by simp
qed

text \<open>
  C3 as stated fails on the bound: a snapshot with 101 bids leaves 101 bids in the manager.
\<close>

theorem C3_hundred_levels_counterexample:
  "length (dm_bids (fst (updateAll [depthOf (replicate 101 (level 45000 1)) [] 1000]
                           (NewDepthManager ''BTCUSDT'', emptyRedis)))) = 101 \<and>
   \<not> length (dm_bids (fst (updateAll [depthOf (replicate 101 (level 45000 1)) [] 1000]
                           (NewDepthManager ''BTCUSDT'', emptyRedis)))) \<le> 100"
  by (simp add: UpdateDepth_manager length_sort_Slice depthOf_def)

subsection \<open>Publishing to the pub/sub bus\<close>

lemma SaveTicker_channel:
  "rs_up s \<Longrightarrow>
   rs_published (snd (SaveTicker t s)) =
     rs_published s @ [(''market:'' @ tk_Symbol t @ '':ticker'', JTicker t)]"
  by (simp add: SaveTicker_def Let_def RedisChannelMarket_def DataTypeTicker_def)

lemma SaveDepth_channel:
  "rs_up s \<Longrightarrow>
   rs_published (snd (SaveDepth b s)) =
     rs_published s @ [(''market:'' @ ob_Symbol b @ '':depth'', JDepth b)]"
  by (simp add: SaveDepth_def Let_def RedisChannelMarket_def DataTypeDepth_def)

lemma SaveTrade_channel:
  "rs_up s \<Longrightarrow>
   rs_published (snd (SaveTrade t s)) =
     rs_published s @ [(''market:'' @ tr_Symbol t @ '':trade'', JTrade t)]"
  by (simp add: SaveTrade_def Let_def RedisChannelMarket_def DataTypeTrade_def)

text \<open>
  C1. The claim says that the storage service publishes a ticker on
  \<open>market:ticker:{symbol}\<close>, a depth snapshot on \<open>market:depth:{symbol}\<close> and a trade
  on \<open>market:trade:{symbol}\<close>. The code puts the symbol before the kind: for BTCUSDT
  the three records go to \<open>market:BTCUSDT:ticker\<close>, \<open>market:BTCUSDT:depth\<close> and
  \<open>market:BTCUSDT:trade\<close>. The broadcaster's own publisher uses
  \<open>market:ticker:BTCUSDT\<close>; the bridge turns the storage's channel into
  \<open>BTCUSDT:ticker\<close>, while a client that subscribes to the ticker of BTCUSDT is
  entered under \<open>ticker:BTCUSDT\<close>.
\<close>

theorem C1_storage_publishes_symbol_before_kind:
  "map fst (rs_published (snd (SaveTicker (tickerOf 45000 7 1000) emptyRedis)))
     = [''market:BTCUSDT:ticker''] \<and>
   map fst (rs_published (snd (SaveDepth (depthOf [level 44999 1] [level 45001 1] 1000) emptyRedis)))
     = [''market:BTCUSDT:depth''] \<and>
   map fst (rs_published (snd (SaveTrade (tradeOf 45000 1 1000) emptyRedis)))
     = [''market:BTCUSDT:trade''] \<and>
   map fst (rs_published (snd (BroadcastTicker ''BTCUSDT'' (tickerOf 45000 7 1000) emptyRedis)))
     = [''market:ticker:BTCUSDT''] \<and>
   bm_Channel (handleRedisMessage (''market:BTCUSDT:ticker'', JTicker (tickerOf 45000 7 1000)))
     = ''BTCUSDT:ticker'' \<and>
   buildChannelName ''ticker'' ''BTCUSDT'' = ''ticker:BTCUSDT''"
  by (simp add: SaveTicker_channel SaveDepth_channel SaveTrade_channel emptyRedis_def
      tickerOf_def depthOf_def tradeOf_def BroadcastTicker_def handleRedisMessage_def
      TrimPrefix_def buildChannelName_def Let_def)

text \<open>
  So the ticker the storage service publishes reaches no subscriber of the ticker, and the
  one the broadcaster's publisher publishes does.
\<close>

lemma storage_ticker_reaches_no_subscriber:
  "GetSubscribers ''ticker:BTCUSDT'' (subscriptionManager subscribedHub) = [7] \<and>
   broadcastToChannel
     (handleRedisMessage
        (hd (rs_published (snd (SaveTicker (tickerOf 45000 7 1000) emptyRedis)))))
     subscribedHub = Inr subscribedHub \<and>
   broadcastToChannel
     (handleRedisMessage
        (hd (rs_published (snd (BroadcastTicker ''BTCUSDT'' (tickerOf 45000 7 1000) emptyRedis)))))
     subscribedHub
   = Inr (subscribedHub\<lparr>sends := (sends subscribedHub)
            (7 := \<lparr>ch_buf = [MarketFrame ''ticker:BTCUSDT'' (JTicker (tickerOf 45000 7 1000))],
                   ch_cap = 256, ch_closed = False\<rparr>)\<rparr>)"
  by (simp add: SaveTicker_channel emptyRedis_def tickerOf_def BroadcastTicker_def
      handleRedisMessage_def TrimPrefix_def buildChannelName_def Let_def
      broadcastToChannel_def GetSubscribers_def subscribedHub_def Hub_Subscribe_def
      Subscribe_def mapSet_def runRegister_def NewHub_def NewSubscriptionManager_def
      trySend_def make_chan_def)

subsection \<open>Subscribing\<close>

lemma length_mapSet:
  "length (mapSet x xs) = (if x \<in> set xs then length xs else length xs + 1)"
  by (simp add: mapSet_def)

lemma set_mapSet: "set (mapSet x xs) = insert x (set xs)"
  by (auto simp: mapSet_def)

lemma Subscribe_client:
  "GetClientSubscriptions client (Subscribe client channel sm) =
     mapSet channel (GetClientSubscriptions client sm)"
  by (simp add: Subscribe_def GetClientSubscriptions_def Let_def)

lemma Subscribe_channel:
  "GetSubscribers channel (Subscribe client channel sm) =
     mapSet client (GetSubscribers channel sm)"
  by (simp add: Subscribe_def GetSubscribers_def Let_def)

lemma handleSubscribe_open:
  assumes "stringField msg ''channel'' = Some channel"
    and "\<not> ch_closed (sends h client)"
  shows "\<exists>h'. handleSubscribe msg client h = Inr h' \<and>
           subscriptionManager h' =
             Subscribe client
               (buildChannelName channel
                  (case stringField msg ''symbol'' of None \<Rightarrow> [] | Some s \<Rightarrow> s))
               (subscriptionManager h)"
  using assms
  by (simp add: handleSubscribe_def sendResponse_def trySend_def Hub_Subscribe_def Let_def)

lemma hubWithTwenty_subscriptions:
  "GetClientSubscriptions 7 (subscriptionManager hubWithTwenty) =
     map (buildChannelName ''ticker'') twentySymbols"
  by (simp add: hubWithTwenty_def twentySymbols_def Hub_Subscribe_def Subscribe_def
      GetClientSubscriptions_def buildChannelName_def mapSet_def runRegister_def NewHub_def
      NewSubscriptionManager_def Let_def)

text \<open>
  C4 (amended). No limit on the number of subscriptions of a client is enforced. Every
  subscribe request that names a channel, from a client whose send queue has not been
  closed, is recorded in both directions of the subscription index; when the channel is
  not yet among the client's subscriptions their number grows by one, whatever it was.
\<close>

theorem C4_subscribe_is_never_refused:
  assumes "stringField msg ''channel'' = Some channel"
    and "\<not> ch_closed (sends h client)"
    and "fullChannel = buildChannelName channel
           (case stringField msg ''symbol'' of None \<Rightarrow> [] | Some s \<Rightarrow> s)"
  shows "\<exists>h'. handleSubscribe msg client h = Inr h' \<and>
           fullChannel \<in> set (GetClientSubscriptions client (subscriptionManager h')) \<and>
           client \<in> set (GetSubscribers fullChannel (subscriptionManager h')) \<and>
           (fullChannel \<notin> set (GetClientSubscriptions client (subscriptionManager h)) \<longrightarrow>
              length (GetClientSubscriptions client (subscriptionManager h')) =
                length (GetClientSubscriptions client (subscriptionManager h)) + 1)"
proof -
  obtain h' where h': "handleSubscribe msg client h = Inr h'"
      "subscriptionManager h' = Subscribe client fullChannel (subscriptionManager h)"
    using handleSubscribe_open [OF assms(1,2)] assms(3) by auto
  show ?thesis
    using h' by (simp add: Subscribe_client Subscribe_channel set_mapSet length_mapSet)
qed

theorem C4_subscribe_is_never_refused_witness:
  "length (GetClientSubscriptions 7 (subscriptionManager hubWithTwenty)) = 20 \<and>
   (\<exists>h'. handleSubscribe (subscribeRequest ''ticker'' ''S21'') 7 hubWithTwenty = Inr h' \<and>
         ''ticker:S21'' \<in> set (GetClientSubscriptions 7 (subscriptionManager h')) \<and>
         7 \<in> set (GetSubscribers ''ticker:S21'' (subscriptionManager h')) \<and>
         length (GetClientSubscriptions 7 (subscriptionManager h')) = 21)"
proof -
  have ch: "stringField (subscribeRequest ''ticker'' ''S21'') ''channel'' = Some ''ticker''"
    by (simp add: stringField_def subscribeRequest_def)
  have sym: "''ticker:S21'' = buildChannelName ''ticker''
           (case stringField (subscribeRequest ''ticker'' ''S21'') ''symbol'' of
              None \<Rightarrow> [] | Some s \<Rightarrow> s)"
    by (simp add: stringField_def subscribeRequest_def buildChannelName_def)
  have open1: "\<not> ch_closed (sends hubWithTwenty 7)"
    by (simp add: hubWithTwenty_def twentySymbols_def Hub_Subscribe_def runRegister_def
        NewHub_def make_chan_def)
  have n: "length (GetClientSubscriptions 7 (subscriptionManager hubWithTwenty)) = 20"
    by (simp add: hubWithTwenty_subscriptions twentySymbols_def)
  have new: "''ticker:S21'' \<notin> set (GetClientSubscriptions 7 (subscriptionManager hubWithTwenty))"
    by (simp add: hubWithTwenty_subscriptions twentySymbols_def buildChannelName_def)
  from C4_subscribe_is_never_refused [OF ch open1 sym] n new
  show ?thesis by simp
qed

text \<open>
  C4 as stated fails: a client that holds 20 subscriptions and subscribes to one more
  channel holds 21.
\<close>

theorem C4_twenty_one_subscriptions_counterexample:
  "length (subscriptionsAfter 7 (Inr hubWithTwenty)) = 20 \<and>
   length (subscriptionsAfter 7
             (handleSubscribe (subscribeRequest ''ticker'' ''S21'') 7 hubWithTwenty)) = 21 \<and>
   \<not> length (subscriptionsAfter 7
             (handleSubscribe (subscribeRequest ''ticker'' ''S21'') 7 hubWithTwenty))
       \<le> MaxSubscriptionsPerConn"
proof -
  have ch: "stringField (subscribeRequest ''ticker'' ''S21'') ''channel'' = Some ''ticker''"
    by (simp add: stringField_def subscribeRequest_def)
  have sym: "buildChannelName ''ticker''
           (case stringField (subscribeRequest ''ticker'' ''S21'') ''symbol'' of
              None \<Rightarrow> [] | Some s \<Rightarrow> s) = ''ticker:S21''"
    by (simp add: stringField_def subscribeRequest_def buildChannelName_def)
  have open1: "\<not> ch_closed (sends hubWithTwenty 7)"
    by (simp add: hubWithTwenty_def twentySymbols_def Hub_Subscribe_def runRegister_def
        NewHub_def make_chan_def)
  obtain h' where h': "handleSubscribe (subscribeRequest ''ticker'' ''S21'') 7 hubWithTwenty = Inr h'"
    "subscriptionManager h' = Subscribe 7 ''ticker:S21'' (subscriptionManager hubWithTwenty)"
    using handleSubscribe_open [OF ch open1] sym by auto
  have "length (subscriptionsAfter 7 (Inr hubWithTwenty)) = 20"
    by (simp add: subscriptionsAfter_def hubWithTwenty_subscriptions twentySymbols_def)
  moreover have "length (subscriptionsAfter 7
             (handleSubscribe (subscribeRequest ''ticker'' ''S21'') 7 hubWithTwenty)) = 21"
    by (simp add: subscriptionsAfter_def h' Subscribe_client length_mapSet
        hubWithTwenty_subscriptions twentySymbols_def buildChannelName_def)
  ultimately show ?thesis
    by (simp add: MaxSubscriptionsPerConn_def)
qed

subsection \<open>Broadcast and backpressure\<close>


lemma sendToSubscribers_blocks:
  assumes "\<forall>c \<in> set cs. queueFull h c \<and> \<not> ch_closed (sends h c)"
    and "\<not> ch_closed (hub_unregister h)"
    and "length (ch_buf (hub_unregister h)) \<le> ch_cap (hub_unregister h)"
    and "ch_cap (hub_unregister h) < length (ch_buf (hub_unregister h)) + length cs"
  shows "sendToSubscribers f cs h = Inl BlockedForever"
  using assms
proof (induction cs arbitrary: h)
  case Nil
  then show ?case by simp
next
  case (Cons c cs)
  show ?case
  proof (cases "length (ch_buf (hub_unregister h)) < ch_cap (hub_unregister h)")
    case False
    with Cons.prems(1,2) show ?thesis
      by (simp add: trySend_def queueFull_def)
  next
    case True
    let ?u = "(hub_unregister h)\<lparr>ch_buf := ch_buf (hub_unregister h) @ [c]\<rparr>"
    let ?h1 = "h\<lparr>hub_unregister := ?u\<rparr>"
    have step: "sendToSubscribers f (c # cs) h = sendToSubscribers f cs ?h1"
      using True Cons.prems(1,2) by (simp add: trySend_def queueFull_def)
    have "sendToSubscribers f cs ?h1 = Inl BlockedForever"
    proof (rule Cons.IH)
      show "\<forall>c' \<in> set cs. queueFull ?h1 c' \<and> \<not> ch_closed (sends ?h1 c')"
        using Cons.prems(1) by (simp add: queueFull_def)
      show "\<not> ch_closed (hub_unregister ?h1)" using Cons.prems(2) by simp
      show "length (ch_buf (hub_unregister ?h1)) \<le> ch_cap (hub_unregister ?h1)"
        using True by simp
      show "ch_cap (hub_unregister ?h1) < length (ch_buf (hub_unregister ?h1)) + length cs"
        using Cons.prems(4) by simp
    qed
    with step show ?thesis by simp
  qed
qed








text \<open>
  For a registered client the loop's unregister case ends in \<open>ClientCount\<close>, where the
  loop stays.
\<close>

lemma unregister_stops_loop:
  assumes "client \<in> set (clients h)" and "\<not> ch_closed (sends h client)"
  shows "fst (runUnregister client h) = Some BlockedForever"
  using assms by (simp add: runUnregister_def Let_def)




text \<open>
  With 257 subscribers of one channel all full, the hub's loop fills its own unregister
  queue and stops for good at the 257th send to it.
\<close>

lemma broadcast_blocks_on_own_unregister_queue:
  "broadcastToChannel tickerUpdate crowdedHub = Inl BlockedForever"
proof -
  have subs: "GetSubscribers (bm_Channel tickerUpdate) (subscriptionManager crowdedHub) = [0..<257]"
    by (simp add: crowdedHub_def tickerUpdate_def GetSubscribers_def)
  have "sendToSubscribers (MarketFrame (bm_Channel tickerUpdate) (bm_Data tickerUpdate))
          [0..<257] crowdedHub = Inl BlockedForever"
    by (rule sendToSubscribers_blocks)
      (simp_all add: crowdedHub_def queueFull_def fullQueue_def NewHub_def make_chan_def)
  then show ?thesis
    by (simp add: broadcastToChannel_def subs Let_def)
qed

end
